theory Spec2Isabelle
  imports Main "HOL-Library.Word" "HOL-Library.Signed_Division" "HOL-Library.Sublist"
begin

unbundle bit_operations_syntax

section \<open>The watchdog of pgpool-II: data model\<close>

text \<open>
  The development embeds the parts of \<^verbatim>\<open>src/watchdog/watchdog.c\<close> that decide quorum and
  failover consensus, the election and split-brain tie-breakers, the command tracker, the
  expiry pass over failover proposals, IPC authentication and the escalation entry points.

  Conventions.
  \<^item> C \<^verbatim>\<open>int\<close> values are \<open>int\<close>; division and remainder are C's (truncating), written
    \<open>sdiv\<close> and \<open>smod\<close>. None of the modelled computations can leave the 32-bit range for
    a cluster that fits in memory, so no wrap-around is written out for them.
    \<^verbatim>\<open>unsigned char\<close> flags are \<open>8 word\<close>, command ids are \<open>32 word\<close>.
  \<^item> A \<^verbatim>\<open>WatchdogNode *\<close> is a \<open>node_ref\<close>: the local node or the slot of a remote node
    in \<^verbatim>\<open>g_cluster.remoteNodes\<close>; \<^verbatim>\<open>NULL\<close> is \<open>None\<close>. A pointer to an element of a
    list owned by the cluster is the position of the element.
  \<^item> \<^verbatim>\<open>g_cluster\<close> and \<^verbatim>\<open>pool_config\<close> are passed explicitly. What a function writes to
    a socket, forks, or hands to a part of the program that is not modelled is appended
    to the trace \<open>out\<close> of the cluster, in program order.
  \<^item> A \<^verbatim>\<open>struct timeval\<close> is an \<open>int\<close> number of seconds (\<^verbatim>\<open>tv_sec\<close>): the election
    and the split-brain tie-breaker read only that field.
  \<^item> An array with its element count (\<^verbatim>\<open>int *nodeList, int nodesCount\<close>) is a list.
\<close>

subsection \<open>Enumerations\<close>

datatype WD_STATES =
    WD_DEAD | WD_LOADING | WD_JOINING | WD_INITIALIZING | WD_COORDINATOR
  | WD_PARTICIPATE_IN_ELECTION | WD_STAND_FOR_COORDINATOR | WD_STANDBY | WD_LOST
  | WD_IN_NW_TROUBLE | WD_SHUTDOWN | WD_ADD_MESSAGE_SENT

datatype WD_EVENTS =
    WD_EVENT_WD_STATE_CHANGED | WD_EVENT_TIMEOUT | WD_EVENT_PACKET_RCV
  | WD_EVENT_COMMAND_FINISHED | WD_EVENT_NEW_OUTBOUND_CONNECTION
  | WD_EVENT_NW_IP_IS_REMOVED | WD_EVENT_NW_IP_IS_ASSIGNED
  | WD_EVENT_NW_LINK_IS_INACTIVE | WD_EVENT_NW_LINK_IS_ACTIVE
  | WD_EVENT_LOCAL_NODE_LOST | WD_EVENT_REMOTE_NODE_LOST | WD_EVENT_REMOTE_NODE_FOUND
  | WD_EVENT_LOCAL_NODE_FOUND | WD_EVENT_CLUSTER_QUORUM_CHANGED

datatype POOL_REQUEST_KIND =
    NODE_UP_REQUEST | NODE_DOWN_REQUEST | NODE_RECOVERY_REQUEST | CLOSE_IDLE_REQUEST
  | PROMOTE_NODE_REQUEST | NODE_QUARANTINE_REQUEST

text \<open>
  The result codes of a failover command, the IPC command and result types, the backend
  roles and the JSON values are declared in headers that are not part of the sources at
  hand (\<^verbatim>\<open>wd_ipc_defines.h\<close>, \<^verbatim>\<open>pool_config.h\<close>, \<^verbatim>\<open>json.h\<close>); only their names matter
  here.
\<close>

datatype WDFailoverCMDResults =
    FAILOVER_RES_ERROR | FAILOVER_RES_TRANSITION | FAILOVER_RES_PROCEED
  | FAILOVER_RES_NO_QUORUM | FAILOVER_RES_WILL_BE_DONE | FAILOVER_RES_NOT_ALLOWED
  | FAILOVER_RES_INVALID_FUNCTION | FAILOVER_RES_MASTER_REJECTED
  | FAILOVER_RES_BUILDING_CONSENSUS | FAILOVER_RES_CONSENSUS_MAY_FAIL

datatype IPC_CMD_PREOCESS_RES =
    IPC_CMD_COMPLETE | IPC_CMD_PROCESSING | IPC_CMD_ERROR | IPC_CMD_OK | IPC_CMD_TRY_AGAIN

datatype ipc_command_type =
    WD_NODE_STATUS_CHANGE_COMMAND | WD_REGISTER_FOR_NOTIFICATION
  | WD_GET_NODES_LIST_COMMAND | WD_GET_RUNTIME_VARIABLE_VALUE
  | WD_IPC_FAILOVER_COMMAND | WD_IPC_ONLINE_RECOVERY_COMMAND
  | WD_GET_MASTER_DATA_REQUEST | WD_FAILOVER_INDICATION
  | WD_IPC_UNKNOWN_COMMAND char

datatype ipc_result_type =
    WD_IPC_CMD_CLUSTER_IN_TRAN | WD_IPC_CMD_RESULT_BAD | WD_IPC_CMD_RESULT_OK
  | WD_IPC_CMD_TIMEOUT

datatype SERVER_ROLE = ROLE_MASTER | ROLE_SLAVE | ROLE_PRIMARY | ROLE_STANDBY

datatype json_value =
    json_object "(string \<times> json_value) list"
  | json_array "json_value list"
  | json_integer int
  | json_string string
  | json_boolean bool
  | json_null

datatype WDNodeCommandState =
    COMMAMD_STATE_INIT | COMMAND_STATE_SENT | COMMAND_STATE_REPLIED
  | COMMAND_STATE_SEND_ERROR | COMMAND_STATE_DO_NOT_SEND

datatype WDCommandStatus =
    COMMAND_EMPTY | COMMAND_IN_PROGRESS | COMMAND_FINISHED_TIMEOUT
  | COMMAND_FINISHED_ALL_REPLIED | COMMAND_FINISHED_NODE_REJECTED
  | COMMAND_FINISHED_SEND_FAILED

datatype node_ref = LocalNode | RemoteNode nat

subsection \<open>Message type codes and constants\<close>

abbreviation (input) WD_NO_MESSAGE :: char where "WD_NO_MESSAGE \<equiv> CHR 0x00"
abbreviation (input) WD_ADD_NODE_MESSAGE :: char where "WD_ADD_NODE_MESSAGE \<equiv> CHR ''A''"
abbreviation (input) WD_REQ_INFO_MESSAGE :: char where "WD_REQ_INFO_MESSAGE \<equiv> CHR ''B''"
abbreviation (input) WD_DECLARE_COORDINATOR_MESSAGE :: char where "WD_DECLARE_COORDINATOR_MESSAGE \<equiv> CHR ''C''"
abbreviation (input) WD_ERROR_MESSAGE :: char where "WD_ERROR_MESSAGE \<equiv> CHR ''E''"
abbreviation (input) WD_ACCEPT_MESSAGE :: char where "WD_ACCEPT_MESSAGE \<equiv> CHR ''G''"
abbreviation (input) WD_INFO_MESSAGE :: char where "WD_INFO_MESSAGE \<equiv> CHR ''I''"
abbreviation (input) WD_JOIN_COORDINATOR_MESSAGE :: char where "WD_JOIN_COORDINATOR_MESSAGE \<equiv> CHR ''J''"
abbreviation (input) WD_IAM_COORDINATOR_MESSAGE :: char where "WD_IAM_COORDINATOR_MESSAGE \<equiv> CHR ''M''"
abbreviation (input) WD_QUORUM_IS_LOST :: char where "WD_QUORUM_IS_LOST \<equiv> CHR ''Q''"
abbreviation (input) WD_REJECT_MESSAGE :: char where "WD_REJECT_MESSAGE \<equiv> CHR ''R''"
abbreviation (input) WD_STAND_FOR_COORDINATOR_MESSAGE :: char where "WD_STAND_FOR_COORDINATOR_MESSAGE \<equiv> CHR ''S''"
abbreviation (input) WD_INFORM_I_AM_GOING_DOWN :: char where "WD_INFORM_I_AM_GOING_DOWN \<equiv> CHR ''X''"
abbreviation (input) WD_ASK_FOR_POOL_CONFIG :: char where "WD_ASK_FOR_POOL_CONFIG \<equiv> CHR ''Y''"
abbreviation (input) WD_CLUSTER_SERVICE_MESSAGE :: char where "WD_CLUSTER_SERVICE_MESSAGE \<equiv> CHR ''#''"
abbreviation (input) WD_FAILOVER_START :: char where "WD_FAILOVER_START \<equiv> CHR ''F''"
abbreviation (input) WD_FAILOVER_END :: char where "WD_FAILOVER_END \<equiv> CHR ''H''"
abbreviation (input) WD_FAILOVER_WAITING_FOR_CONSENSUS :: char where "WD_FAILOVER_WAITING_FOR_CONSENSUS \<equiv> CHR ''K''"

abbreviation (input) CLUSTER_NEEDS_ELECTION :: char where "CLUSTER_NEEDS_ELECTION \<equiv> CHR ''E''"
abbreviation (input) CLUSTER_IAM_TRUE_MASTER :: char where "CLUSTER_IAM_TRUE_MASTER \<equiv> CHR ''M''"
abbreviation (input) CLUSTER_IAM_NOT_TRUE_MASTER :: char where "CLUSTER_IAM_NOT_TRUE_MASTER \<equiv> CHR ''X''"
abbreviation (input) CLUSTER_IAM_RESIGNING_FROM_MASTER :: char where "CLUSTER_IAM_RESIGNING_FROM_MASTER \<equiv> CHR ''R''"

abbreviation (input) MAX_SECS_ESC_PROC_EXIT_WAIT :: nat where "MAX_SECS_ESC_PROC_EXIT_WAIT \<equiv> 5"
abbreviation (input) BEACON_MESSAGE_INTERVAL_SECONDS :: nat where "BEACON_MESSAGE_INTERVAL_SECONDS \<equiv> 10"
abbreviation (input) MAX_SECS_WAIT_FOR_REPLY_FROM_NODE :: nat where "MAX_SECS_WAIT_FOR_REPLY_FROM_NODE \<equiv> 5"
abbreviation (input) FAILOVER_COMMAND_FINISH_TIMEOUT :: int where "FAILOVER_COMMAND_FINISH_TIMEOUT \<equiv> 15"

abbreviation (input) REQ_DETAIL_WATCHDOG :: "8 word" where "REQ_DETAIL_WATCHDOG \<equiv> 0x02"
abbreviation (input) REQ_DETAIL_CONFIRMED :: "8 word" where "REQ_DETAIL_CONFIRMED \<equiv> 0x04"

subsection \<open>Configuration, nodes, packets, commands, proposals and the cluster\<close>

record pool_config =
  failover_when_quorum_exists :: bool
  failover_require_consensus :: bool
  allow_multiple_failover_requests_from_node :: bool
  enable_consensus_with_half_votes :: bool
  cfg_wd_priority :: int
  wd_authkey :: string

record WatchdogNode =
  state :: WD_STATES
  wd_priority :: int
  startup_time :: int
  current_state_time :: int
  node_quorum_status :: int
  node_standby_nodes_count :: int
  escalated :: bool
  delegate_ip :: string

record WDPacketData =
  pkt_type :: char
  command_id :: "32 word"
  pkt_len :: int
  pkt_data :: "string option"

record WDCommandNodeResult =
  res_wdNode :: nat
  cmdState :: WDNodeCommandState
  result_type :: char
  result_data_len :: int
  result_data :: "string option"

record WDCommandData =
  commandPacket :: WDPacketData
  nodeResults :: "WDCommandNodeResult list"
  commandStatus :: WDCommandStatus
  commandSendToCount :: nat
  commandReplyFromCount :: nat

record WDFailoverObject =
  reqKind :: POOL_REQUEST_KIND
  reqFlags :: "8 word"
  failoverID :: "32 word"
  nodeList :: "int list"
  requestingNodes :: "node_ref list"
  request_count :: int
  startTime :: int

record ipc_command =
  sourcePacket_type :: ipc_command_type
  sourcePacket_len :: int
  sourcePacket_data :: "string option"
  sourceIPCSocket :: int
  errorMessage :: "string option"

text \<open>
  The payload of a packet that the watchdog sends. The JSON writers live in
  \<^verbatim>\<open>wd_json_data.c\<close>; the trace keeps which writer produced the payload.
\<close>

datatype wd_payload =
    NoData
  | ServiceCode char
  | NodeInfoJson
  | AddNodeJson
  | BeaconJson

text \<open>
  The trace. \<open>SendMessage\<close> is a call of \<^verbatim>\<open>send_message\<close> that reaches the sockets (destination
  \<open>None\<close>: every reachable node); \<open>IssueClusterCommand\<close> is a call of
  \<^verbatim>\<open>issue_watchdog_internal_command\<close>; \<open>WriteIPCResult\<close> is a call of
  \<^verbatim>\<open>write_ipc_command_with_result_data\<close> with the message that
  \<^verbatim>\<open>get_wd_simple_message_json\<close> wraps; \<open>StateMachineHandler\<close> and
  \<open>StandardPacketProcessor\<close> stand for a handler of the state machine that is not
  embedded here.
\<close>

datatype wd_action =
    SendMessage "node_ref option" char "32 word" wd_payload
  | IssueClusterCommand "node_ref option" char "32 word" nat
  | SetTimeout nat
  | Sleep nat
  | ForkEscalationProcess
  | ForkPlungingProcess
  | SetWatchdogNodeEscalated
  | ResetWatchdogNodeEscalated
  | TryConnectingWithAllUnreachableNodes
  | RegisterQuorumChangeInterrupt
  | WriteIPCResult int ipc_result_type "string option"
  | KeepIPCCommand int
  | StateMachineHandler WD_EVENTS WD_STATES
  | StandardPacketProcessor nat char

record wd_cluster =
  localNode :: WatchdogNode
  remoteNodes :: "nat \<Rightarrow> WatchdogNode"
  masterNode :: "node_ref option"
  standby_nodes_count :: int
  holding_vip :: bool
  remoteNodeCount :: int
  quorum_status :: int
  nextCommandID :: "32 word"
  escalation_pid :: int
  de_escalation_pid :: int
  ipc_auth_needed :: bool
  wdCurrentFailovers :: "WDFailoverObject list"
  out :: "wd_action list"

text \<open>
  What the operating system hands to one call: the clock (\<^verbatim>\<open>gettimeofday\<close>, seconds), the
  process ids that \<^verbatim>\<open>pool_waitpid\<close> reports at each successive run of the child-signal
  handler (an empty list when \<^verbatim>\<open>sigchld_request\<close> is not set), and what the two
  \<^verbatim>\<open>fork\<close> wrappers return.
\<close>

record wd_env =
  now :: int
  child_exits :: "int list list"
  fork_escalation_process :: int
  fork_plunging_process :: int

text \<open>
  The shared memory of the middleware that the expiry pass reads: \<^verbatim>\<open>Req_info->primary_node_id\<close>
  and the array behind \<^verbatim>\<open>BACKEND_INFO\<close>. The source indexes the array with the node ids of a
  proposal without a range check, so the array is a function of the node id.
\<close>

record BackendInfo =
  quarantine :: bool
  role :: SERVER_ROLE

record pool_shared =
  primary_node_id :: int
  BACKEND_INFO :: "int \<Rightarrow> BackendInfo"

text \<open>
  The events that the embedded handlers treat, together with the arguments that the callers
  pass with each: a received packet comes with its sender (the slot of a remote node) and the
  packet, a finished command with the replying node and packet (absent on a timeout) and the
  command.
\<close>

datatype wd_event =
    StateChanged
  | Timeout
  | PacketRcv nat WDPacketData
  | CommandFinished "nat option" "WDPacketData option" WDCommandData
  | ClusterQuorumChanged

section \<open>Sending and the command counter\<close>

definition emit :: "wd_action \<Rightarrow> wd_cluster \<Rightarrow> wd_cluster" where
  "emit a g = g\<lparr>out := out g @ [a]\<rparr>"

definition get_next_commandID :: "wd_cluster \<Rightarrow> 32 word \<times> wd_cluster" where
  "get_next_commandID g = (nextCommandID g + 1, g\<lparr>nextCommandID := nextCommandID g + 1\<rparr>)"

definition set_timeout :: "nat \<Rightarrow> wd_cluster \<Rightarrow> wd_cluster" where
  "set_timeout sec g = emit (SetTimeout sec) g"

definition send_message ::
  "node_ref option \<Rightarrow> char \<Rightarrow> 32 word \<Rightarrow> wd_payload \<Rightarrow> wd_cluster \<Rightarrow> wd_cluster" where
  "send_message wdNode t i d g =
     (if wdNode = Some LocalNode then g else emit (SendMessage wdNode t i d) g)"

definition reply_with_message ::
  "node_ref option \<Rightarrow> char \<Rightarrow> wd_payload \<Rightarrow> WDPacketData option \<Rightarrow> wd_cluster \<Rightarrow> wd_cluster" where
  "reply_with_message wdNode t d replyFor g =
     (case replyFor of
        None \<Rightarrow> (case get_next_commandID g of (i, g') \<Rightarrow> send_message wdNode t i d g')
      | Some p \<Rightarrow> send_message wdNode t (command_id p) d g)"

definition reply_with_minimal_message ::
  "node_ref option \<Rightarrow> char \<Rightarrow> WDPacketData option \<Rightarrow> wd_cluster \<Rightarrow> wd_cluster" where
  "reply_with_minimal_message wdNode t replyFor g = reply_with_message wdNode t NoData replyFor g"

definition send_cluster_service_message ::
  "node_ref option \<Rightarrow> WDPacketData option \<Rightarrow> char \<Rightarrow> wd_cluster \<Rightarrow> wd_cluster" where
  "send_cluster_service_message wdNode replyFor message g =
     reply_with_message wdNode WD_CLUSTER_SERVICE_MESSAGE (ServiceCode message) replyFor g"

definition minimum_message_types :: "char list" where
  "minimum_message_types =
     [WD_FAILOVER_START, WD_FAILOVER_END, WD_REQ_INFO_MESSAGE, WD_STAND_FOR_COORDINATOR_MESSAGE,
      WD_DECLARE_COORDINATOR_MESSAGE, WD_JOIN_COORDINATOR_MESSAGE, WD_QUORUM_IS_LOST,
      WD_INFORM_I_AM_GOING_DOWN, WD_ASK_FOR_POOL_CONFIG, WD_FAILOVER_WAITING_FOR_CONSENSUS]"

definition get_message_of_type ::
  "char \<Rightarrow> WDPacketData option \<Rightarrow> wd_cluster \<Rightarrow> (32 word \<times> wd_payload) option \<times> wd_cluster" where
  "get_message_of_type t replyFor g =
     (let fresh = (\<lambda>d. case get_next_commandID g of (i, g') \<Rightarrow> (Some (i, d), g'));
          answer = (\<lambda>d. case replyFor of None \<Rightarrow> fresh d | Some p \<Rightarrow> (Some (command_id p, d), g))
      in if t = WD_INFO_MESSAGE then answer NodeInfoJson
         else if t = WD_ADD_NODE_MESSAGE then fresh AddNodeJson
         else if t = WD_IAM_COORDINATOR_MESSAGE then answer BeaconJson
         else if t \<in> set minimum_message_types then answer NoData
         else (None, g))"

definition send_message_of_type ::
  "node_ref option \<Rightarrow> char \<Rightarrow> WDPacketData option \<Rightarrow> wd_cluster \<Rightarrow> wd_cluster" where
  "send_message_of_type wdNode t replyFor g =
     (case get_message_of_type t replyFor g of
        (Some (i, d), g') \<Rightarrow> send_message wdNode t i d g'
      | (None, g') \<Rightarrow> g')"

definition send_cluster_command :: "node_ref option \<Rightarrow> char \<Rightarrow> nat \<Rightarrow> wd_cluster \<Rightarrow> wd_cluster" where
  "send_cluster_command wdNode t timeout_sec g =
     (case get_message_of_type t None g of
        (Some (i, d), g') \<Rightarrow> emit (IssueClusterCommand wdNode t i timeout_sec) g'
      | (None, g') \<Rightarrow> g')"

section \<open>Escalation and de-escalation\<close>

fun wd_child_signal_handler :: "int list \<Rightarrow> wd_cluster \<Rightarrow> wd_cluster" where
  "wd_child_signal_handler [] g = g"
| "wd_child_signal_handler (pid # pids) g =
     wd_child_signal_handler pids
       (if de_escalation_pid g = pid then g\<lparr>de_escalation_pid := 0\<rparr>
        else if escalation_pid g = pid then g\<lparr>escalation_pid := 0\<rparr>
        else g)"

text \<open>
  The two waits, \<^verbatim>\<open>while (pid > 0 && wait_secs-- > 0)\<close>: the first argument is
  \<^verbatim>\<open>wait_secs\<close>, the second what the child-signal handler reaps in the coming rounds.
\<close>

fun wait_for_de_escalation_exit :: "nat \<Rightarrow> int list list \<Rightarrow> wd_cluster \<Rightarrow> wd_cluster" where
  "wait_for_de_escalation_exit 0 sig g = g"
| "wait_for_de_escalation_exit (Suc wait_secs) sig g =
     (if de_escalation_pid g > 0
      then wait_for_de_escalation_exit wait_secs (tl sig)
             (emit (Sleep 1) (wd_child_signal_handler (case sig of [] \<Rightarrow> [] | p # _ \<Rightarrow> p) g))
      else g)"

fun wait_for_escalation_exit :: "nat \<Rightarrow> int list list \<Rightarrow> wd_cluster \<Rightarrow> wd_cluster" where
  "wait_for_escalation_exit 0 sig g = g"
| "wait_for_escalation_exit (Suc wait_secs) sig g =
     (if escalation_pid g > 0
      then wait_for_escalation_exit wait_secs (tl sig)
             (emit (Sleep 1) (wd_child_signal_handler (case sig of [] \<Rightarrow> [] | p # _ \<Rightarrow> p) g))
      else g)"

definition start_escalated_node :: "wd_env \<Rightarrow> wd_cluster \<Rightarrow> wd_cluster" where
  "start_escalated_node env g =
     (if escalated (localNode g) = True then g
      else
        let g1 = wait_for_de_escalation_exit MAX_SECS_ESC_PROC_EXIT_WAIT (child_exits env) g;
            g2 = (emit ForkEscalationProcess g1)\<lparr>escalation_pid := fork_escalation_process env\<rparr>
        in if escalation_pid g2 > 0
           then
             let g3 = emit SetWatchdogNodeEscalated
                        (g2\<lparr>localNode := (localNode g2)\<lparr>escalated := True\<rparr>\<rparr>)
             in if length (delegate_ip (localNode g3)) > 0
                then g3\<lparr>holding_vip := True\<rparr> else g3
           else g2)"

definition resign_from_escalated_node :: "wd_env \<Rightarrow> wd_cluster \<Rightarrow> wd_cluster" where
  "resign_from_escalated_node env g =
     (if escalated (localNode g) = False then g
      else
        let g1 = wait_for_escalation_exit MAX_SECS_ESC_PROC_EXIT_WAIT (child_exits env) g;
            g2 = (emit ForkPlungingProcess g1)\<lparr>de_escalation_pid := fork_plunging_process env\<rparr>;
            g3 = g2\<lparr>holding_vip := False\<rparr>;
            g4 = g3\<lparr>localNode := (localNode g3)\<lparr>escalated := False\<rparr>\<rparr>
        in emit ResetWatchdogNodeEscalated g4)"

section \<open>State changes\<close>

definition set_cluster_master_node :: "node_ref option \<Rightarrow> wd_cluster \<Rightarrow> wd_cluster" where
  "set_cluster_master_node wdNode g =
     (if masterNode g \<noteq> wdNode then g\<lparr>masterNode := wdNode\<rparr> else g)"

definition clear_standby_nodes_list :: "wd_cluster \<Rightarrow> wd_cluster" where
  "clear_standby_nodes_list g =
     g\<lparr>standby_nodes_count := 0,
       localNode := (localNode g)\<lparr>node_standby_nodes_count := 0\<rparr>\<rparr>"

definition clear_all_failovers :: "wd_cluster \<Rightarrow> wd_cluster" where
  "clear_all_failovers g = g\<lparr>wdCurrentFailovers := []\<rparr>"

text \<open>
  \<^verbatim>\<open>watchdog_state_machine(WD_EVENT_WD_STATE_CHANGED, NULL, NULL, NULL)\<close>: the event passes
  the common part of the state machine untouched and reaches the handler of the state the
  node is in by then. The handlers of joining, initializing, coordinator, voting and
  standing for coordinator are embedded; the others (they walk the sockets, leave the
  process or change the state once more) are recorded in the trace.
\<close>

definition state_changed_handler :: "pool_config \<Rightarrow> wd_cluster \<Rightarrow> wd_cluster" where
  "state_changed_handler cfg g =
     (case state (localNode g) of
        WD_JOINING \<Rightarrow>
          set_timeout MAX_SECS_WAIT_FOR_REPLY_FROM_NODE
            (send_cluster_command None WD_REQ_INFO_MESSAGE 4
              (emit TryConnectingWithAllUnreachableNodes
                (set_cluster_master_node None g)))
      | WD_INITIALIZING \<Rightarrow> set_timeout 1 g
      | WD_COORDINATOR \<Rightarrow>
          (let g1 = set_timeout MAX_SECS_WAIT_FOR_REPLY_FROM_NODE
                      (send_cluster_command None WD_DECLARE_COORDINATOR_MESSAGE 4 g)
           in g1\<lparr>localNode := (localNode g1)\<lparr>wd_priority := cfg_wd_priority cfg\<rparr>\<rparr>)
      | WD_PARTICIPATE_IN_ELECTION \<Rightarrow> set_timeout MAX_SECS_WAIT_FOR_REPLY_FROM_NODE g
      | WD_STAND_FOR_COORDINATOR \<Rightarrow>
          set_timeout MAX_SECS_WAIT_FOR_REPLY_FROM_NODE
            (send_cluster_command None WD_STAND_FOR_COORDINATOR_MESSAGE 4 g)
      | s \<Rightarrow> emit (StateMachineHandler WD_EVENT_WD_STATE_CHANGED s) g)"

definition set_state :: "wd_env \<Rightarrow> pool_config \<Rightarrow> WD_STATES \<Rightarrow> wd_cluster \<Rightarrow> wd_cluster" where
  "set_state env cfg newState g =
     (let oldState = state (localNode g);
          g1 = g\<lparr>localNode := (localNode g)\<lparr>state := newState\<rparr>\<rparr>
      in if oldState \<noteq> newState
         then
           let g2 = g1\<lparr>localNode := (localNode g1)\<lparr>current_state_time := now env\<rparr>\<rparr>;
               g3 = (if oldState = WD_COORDINATOR
                     then clear_all_failovers
                            (clear_standby_nodes_list (resign_from_escalated_node env g2))
                     else g2);
               g4 = state_changed_handler cfg g3
           in send_message_of_type None WD_INFO_MESSAGE None g4
         else g1)"

section \<open>Quorum and the number of votes\<close>

definition get_mimimum_remote_nodes_required_for_quorum :: "wd_cluster \<Rightarrow> int" where
  "get_mimimum_remote_nodes_required_for_quorum g =
     (if remoteNodeCount g smod 2 = 0 then remoteNodeCount g sdiv 2
      else (remoteNodeCount g - 1) sdiv 2)"

definition get_minimum_votes_to_resolve_consensus :: "pool_config \<Rightarrow> wd_cluster \<Rightarrow> int" where
  "get_minimum_votes_to_resolve_consensus cfg g =
     (let required_node_count = get_mimimum_remote_nodes_required_for_quorum g + 1
      in if remoteNodeCount g smod 2 \<noteq> 0
         then (if enable_consensus_with_half_votes cfg = False
               then required_node_count + 1 else required_node_count)
         else required_node_count)"

section \<open>The state machine of the coordinator\<close>

text \<open>
  \<^verbatim>\<open>beacon_message_received_from_node\<close>. The parser of the beacon,
  \<^verbatim>\<open>parse_beacon_message_json\<close>, is in \<^verbatim>\<open>wd_json_data.c\<close> and is taken as a parameter; it
  yields the fields of the beacon or fails.
\<close>

record beacon_fields =
  beacon_state :: WD_STATES
  seconds_since_node_startup :: int
  seconds_since_current_state :: int
  beacon_quorum_status :: int
  beacon_standby_nodes_count :: int
  beacon_escalated :: bool

definition beacon_message_received_from_node ::
  "(string \<Rightarrow> beacon_fields option) \<Rightarrow> wd_env \<Rightarrow> nat \<Rightarrow> WDPacketData \<Rightarrow> wd_cluster
     \<Rightarrow> bool \<times> wd_cluster" where
  "beacon_message_received_from_node parse_beacon_message_json env wdNode pkt g =
     (case pkt_data pkt of
        None \<Rightarrow> (False, g)
      | Some d \<Rightarrow>
          if pkt_len pkt \<le> 0 then (False, g)
          else (case parse_beacon_message_json d of
                  None \<Rightarrow> (False, g)
                | Some b \<Rightarrow>
                    (True,
                     g\<lparr>remoteNodes := (remoteNodes g)
                         (wdNode := (remoteNodes g wdNode)
                            \<lparr>state := beacon_state b,
                             startup_time := now env - seconds_since_node_startup b,
                             current_state_time := now env - seconds_since_current_state b,
                             node_quorum_status := beacon_quorum_status b,
                             node_standby_nodes_count := beacon_standby_nodes_count b,
                             escalated := beacon_escalated b\<rparr>)\<rparr>)))"

definition I_am_master_and_cluser_in_split_brain :: "wd_cluster \<Rightarrow> nat \<Rightarrow> int" where
  "I_am_master_and_cluser_in_split_brain g otherMasterNode =
     (let other = remoteNodes g otherMasterNode in
      if state (localNode g) \<noteq> WD_COORDINATOR then 0
      else if state other \<noteq> WD_COORDINATOR then 0
      else if current_state_time other = 0 then 0
      else if escalated other \<noteq> escalated (localNode g)
      then (if escalated other = True \<and> escalated (localNode g) = False then - 1 else 1)
      else if node_quorum_status other \<noteq> quorum_status g
      then (if node_quorum_status other > quorum_status g then - 1 else 1)
      else if node_standby_nodes_count other \<noteq> standby_nodes_count g
      then (if node_standby_nodes_count other > standby_nodes_count g then - 1 else 1)
      else (if current_state_time other < current_state_time (localNode g) then - 1 else 1))"

definition handle_split_brain ::
  "wd_env \<Rightarrow> pool_config \<Rightarrow> nat \<Rightarrow> WDPacketData \<Rightarrow> wd_cluster \<Rightarrow> wd_cluster" where
  "handle_split_brain env cfg otherMasterNode pkt g =
     (let decide_master = I_am_master_and_cluser_in_split_brain g otherMasterNode in
      if decide_master = 0
      then set_state env cfg WD_JOINING
             (send_cluster_service_message (Some (RemoteNode otherMasterNode)) (Some pkt)
                CLUSTER_NEEDS_ELECTION g)
      else if decide_master = - 1
      then set_state env cfg WD_JOINING
             (send_cluster_service_message None (Some pkt) CLUSTER_IAM_NOT_TRUE_MASTER g)
      else send_cluster_service_message (Some (RemoteNode otherMasterNode)) (Some pkt)
             CLUSTER_IAM_TRUE_MASTER g)"

text \<open>
  \<^verbatim>\<open>watchdog_state_machine_coordinator\<close>. Embedded: the state change, the change of the
  quorum, the beacon timer, and the packets \<^verbatim>\<open>S\<close>, \<^verbatim>\<open>C\<close> and \<^verbatim>\<open>M\<close>. The other arms
  (a finished command, a join request, the standard packet processor) are recorded in the
  trace. On its way to the handler of the state a packet passes the common part of
  \<^verbatim>\<open>watchdog_state_machine\<close>, which notes the time of its arrival, and the two command
  processors, which take replies, data packets and the IPC commands of peers; the election
  packets \<^verbatim>\<open>S\<close>, \<^verbatim>\<open>C\<close> and \<^verbatim>\<open>M\<close> are none of these.
\<close>

definition watchdog_state_machine_coordinator ::
  "(string \<Rightarrow> beacon_fields option) \<Rightarrow> wd_env \<Rightarrow> pool_config \<Rightarrow> wd_event \<Rightarrow> wd_cluster
     \<Rightarrow> wd_cluster" where
  "watchdog_state_machine_coordinator parse_beacon_message_json env cfg event g =
     (case event of
        StateChanged \<Rightarrow>
          (let g1 = set_timeout MAX_SECS_WAIT_FOR_REPLY_FROM_NODE
                      (send_cluster_command None WD_DECLARE_COORDINATOR_MESSAGE 4 g)
           in g1\<lparr>localNode := (localNode g1)\<lparr>wd_priority := cfg_wd_priority cfg\<rparr>\<rparr>)
      | ClusterQuorumChanged \<Rightarrow>
          (if masterNode g = Some LocalNode
           then
             let g1 = (if quorum_status g = - 1 then resign_from_escalated_node env g
                       else if quorum_status g \<ge> 0
                       then (if escalated (localNode g) = False
                             then start_escalated_node env g else g)
                       else g)
             in emit RegisterQuorumChangeInterrupt
                  (send_message_of_type None WD_INFO_MESSAGE None g1)
           else g)
      | Timeout \<Rightarrow>
          set_timeout BEACON_MESSAGE_INTERVAL_SECONDS
            (send_cluster_command None WD_IAM_COORDINATOR_MESSAGE 5 g)
      | PacketRcv wdNode pkt \<Rightarrow>
          if pkt_type pkt = WD_STAND_FOR_COORDINATOR_MESSAGE
          then reply_with_minimal_message (Some (RemoteNode wdNode)) WD_REJECT_MESSAGE (Some pkt) g
          else if pkt_type pkt = WD_DECLARE_COORDINATOR_MESSAGE
          then reply_with_minimal_message (Some (RemoteNode wdNode)) WD_ERROR_MESSAGE (Some pkt) g
          else if pkt_type pkt = WD_IAM_COORDINATOR_MESSAGE
          then (case beacon_message_received_from_node parse_beacon_message_json env wdNode pkt g of
                  (True, g1) \<Rightarrow> handle_split_brain env cfg wdNode pkt g1
                | (False, g1) \<Rightarrow>
                    set_state env cfg WD_JOINING
                      (send_cluster_service_message (Some (RemoteNode wdNode)) (Some pkt)
                         CLUSTER_NEEDS_ELECTION g1))
          else if pkt_type pkt = WD_JOIN_COORDINATOR_MESSAGE
          then emit (StateMachineHandler WD_EVENT_PACKET_RCV WD_COORDINATOR) g
          else emit (StandardPacketProcessor wdNode (pkt_type pkt)) g
      | CommandFinished wdNode pkt clusterCommand \<Rightarrow>
          emit (StateMachineHandler WD_EVENT_COMMAND_FINISHED WD_COORDINATOR) g)"

section \<open>The state machine of a node standing for coordinator\<close>

definition watchdog_state_machine_standForCord ::
  "wd_env \<Rightarrow> pool_config \<Rightarrow> wd_event \<Rightarrow> wd_cluster \<Rightarrow> wd_cluster" where
  "watchdog_state_machine_standForCord env cfg event g =
     (case event of
        StateChanged \<Rightarrow>
          set_timeout MAX_SECS_WAIT_FOR_REPLY_FROM_NODE
            (send_cluster_command None WD_STAND_FOR_COORDINATOR_MESSAGE 4 g)
      | CommandFinished wdNode pkt clusterCommand \<Rightarrow>
          if pkt_type (commandPacket clusterCommand) = WD_STAND_FOR_COORDINATOR_MESSAGE
          then
            if commandStatus clusterCommand = COMMAND_FINISHED_ALL_REPLIED \<or>
               commandStatus clusterCommand = COMMAND_FINISHED_TIMEOUT
            then set_state env cfg WD_COORDINATOR g
            else (case pkt of
                    Some p \<Rightarrow>
                      if pkt_type p = WD_ERROR_MESSAGE then set_state env cfg WD_JOINING g
                      else if pkt_type p = WD_REJECT_MESSAGE
                      then set_state env cfg WD_PARTICIPATE_IN_ELECTION g
                      else g
                  | None \<Rightarrow> set_state env cfg WD_JOINING g)
          else g
      | Timeout \<Rightarrow> set_state env cfg WD_COORDINATOR g
      | PacketRcv wdNode pkt \<Rightarrow>
          if pkt_type pkt = WD_STAND_FOR_COORDINATOR_MESSAGE
          then
            if wd_priority (localNode g) > wd_priority (remoteNodes g wdNode)
            then reply_with_minimal_message (Some (RemoteNode wdNode)) WD_REJECT_MESSAGE (Some pkt) g
            else if wd_priority (localNode g) = wd_priority (remoteNodes g wdNode)
            then
              if startup_time (localNode g) \<le> startup_time (remoteNodes g wdNode)
              then reply_with_minimal_message (Some (RemoteNode wdNode)) WD_REJECT_MESSAGE (Some pkt) g
              else set_state env cfg WD_PARTICIPATE_IN_ELECTION
                     (reply_with_minimal_message (Some (RemoteNode wdNode)) WD_ACCEPT_MESSAGE
                        (Some pkt) g)
            else set_state env cfg WD_PARTICIPATE_IN_ELECTION
                   (reply_with_minimal_message (Some (RemoteNode wdNode)) WD_ACCEPT_MESSAGE
                      (Some pkt) g)
          else if pkt_type pkt = WD_DECLARE_COORDINATOR_MESSAGE
          then
            if wd_priority (localNode g) > wd_priority (remoteNodes g wdNode)
            then reply_with_minimal_message (Some (RemoteNode wdNode)) WD_REJECT_MESSAGE (Some pkt) g
            else set_state env cfg WD_JOINING
                   (reply_with_minimal_message (Some (RemoteNode wdNode)) WD_ACCEPT_MESSAGE
                      (Some pkt) g)
          else emit (StandardPacketProcessor wdNode (pkt_type pkt)) g
      | ClusterQuorumChanged \<Rightarrow> g)"

section \<open>Quorum status\<close>

text \<open>
  \<^verbatim>\<open>update_quorum_status\<close> runs on the coordinator only (the main loop and the handlers of
  the coordinator call it). A change of the quorum is dispatched to the handler of the
  coordinator; in any other state the dispatch is recorded in the trace.
\<close>

definition update_quorum_status ::
  "(string \<Rightarrow> beacon_fields option) \<Rightarrow> wd_env \<Rightarrow> pool_config \<Rightarrow> wd_cluster \<Rightarrow> wd_cluster" where
  "update_quorum_status parse_beacon_message_json env cfg g =
     (let old_quorum_status = quorum_status g;
          q = (if standby_nodes_count g > get_mimimum_remote_nodes_required_for_quorum g then 1
               else if standby_nodes_count g = get_mimimum_remote_nodes_required_for_quorum g
               then (if remoteNodeCount g smod 2 \<noteq> 0
                     then (if enable_consensus_with_half_votes cfg then 0 else - 1)
                     else 1)
               else - 1);
          g1 = g\<lparr>quorum_status := q\<rparr>;
          g2 = g1\<lparr>localNode := (localNode g1)\<lparr>node_quorum_status := q\<rparr>\<rparr>
      in if q \<noteq> old_quorum_status
         then (if state (localNode g2) = WD_COORDINATOR
               then watchdog_state_machine_coordinator parse_beacon_message_json env cfg
                      ClusterQuorumChanged g2
               else emit (StateMachineHandler WD_EVENT_CLUSTER_QUORUM_CHANGED
                            (state (localNode g2))) g2)
         else g2)"

section \<open>Failover proposals and consensus\<close>

definition does_int_array_contains_value :: "int list \<Rightarrow> int \<Rightarrow> bool" where
  "does_int_array_contains_value intArray v = list_ex (\<lambda>x. x = v) intArray"

text \<open>
  \<^verbatim>\<open>get_failover_object\<close>: the first proposal of the same kind and node count whose every
  node id occurs in the requested list; the result is its position in
  \<^verbatim>\<open>g_cluster.wdCurrentFailovers\<close>.
\<close>

definition failover_object_matches :: "POOL_REQUEST_KIND \<Rightarrow> int list \<Rightarrow> WDFailoverObject \<Rightarrow> bool" where
  "failover_object_matches k nl failoverObj \<longleftrightarrow>
     reqKind failoverObj = k \<and> length (nodeList failoverObj) = length nl \<and>
     list_all (\<lambda>v. does_int_array_contains_value nl v) (nodeList failoverObj)"

fun get_failover_object ::
  "POOL_REQUEST_KIND \<Rightarrow> int list \<Rightarrow> WDFailoverObject list \<Rightarrow> nat option" where
  "get_failover_object k nl [] = None"
| "get_failover_object k nl (failoverObj # rest) =
     (if failover_object_matches k nl failoverObj then Some 0
      else map_option Suc (get_failover_object k nl rest))"

definition remove_failover_object :: "nat \<Rightarrow> wd_cluster \<Rightarrow> wd_cluster" where
  "remove_failover_object i g =
     g\<lparr>wdCurrentFailovers := take i (wdCurrentFailovers g) @ drop (Suc i) (wdCurrentFailovers g)\<rparr>"

text \<open>
  \<^verbatim>\<open>add_failover\<close> returns the position of the proposal, the \<^verbatim>\<open>duplicate\<close> flag and the new
  cluster.
\<close>

definition add_failover ::
  "wd_env \<Rightarrow> pool_config \<Rightarrow> POOL_REQUEST_KIND \<Rightarrow> int list \<Rightarrow> node_ref \<Rightarrow> 8 word \<Rightarrow> wd_cluster
     \<Rightarrow> nat \<times> bool \<times> wd_cluster" where
  "add_failover env cfg k node_id_list wdNode flags g =
     (case get_failover_object k node_id_list (wdCurrentFailovers g) of
        Some i \<Rightarrow>
          (let failoverObj = wdCurrentFailovers g ! i in
           if wdNode \<in> set (requestingNodes failoverObj)
           then
             (if allow_multiple_failover_requests_from_node cfg
              then (i, True,
                    g\<lparr>wdCurrentFailovers := (wdCurrentFailovers g)
                        [i := failoverObj\<lparr>request_count := request_count failoverObj + 1\<rparr>]\<rparr>)
              else (i, True, g))
           else
             (i, False,
              g\<lparr>wdCurrentFailovers := (wdCurrentFailovers g)
                  [i := failoverObj\<lparr>request_count := request_count failoverObj + 1,
                                    requestingNodes := requestingNodes failoverObj @ [wdNode]\<rparr>]\<rparr>))
      | None \<Rightarrow>
          (case get_next_commandID g of
             (fid, g1) \<Rightarrow>
               (let failoverObj =
                      \<lparr>reqKind = k, reqFlags = flags, failoverID = fid,
                       nodeList = node_id_list, requestingNodes = [wdNode],
                       request_count = 0 + 1, startTime = now env\<rparr>
                in (length (wdCurrentFailovers g1), False,
                    g1\<lparr>wdCurrentFailovers := wdCurrentFailovers g1 @ [failoverObj]\<rparr>))))"

text \<open>
  \<^verbatim>\<open>compute_failover_consensus\<close> returns the result, the flags (the function may replace them
  by those of the first request) and the new cluster. The three \<^verbatim>\<open>#ifndef\<close> shortcuts are
  compiled out: the file defines \<^verbatim>\<open>NODE_UP_REQUIRE_CONSENSUS\<close>,
  \<^verbatim>\<open>NODE_DOWN_REQUIRE_CONSENSUS\<close> and \<^verbatim>\<open>NODE_PROMOTE_REQUIRE_CONSENSUS\<close>.
\<close>

definition compute_failover_consensus ::
  "(string \<Rightarrow> beacon_fields option) \<Rightarrow> wd_env \<Rightarrow> pool_config \<Rightarrow> POOL_REQUEST_KIND \<Rightarrow> int list
     \<Rightarrow> 8 word \<Rightarrow> node_ref \<Rightarrow> wd_cluster \<Rightarrow> WDFailoverCMDResults \<times> 8 word \<times> wd_cluster" where
  "compute_failover_consensus parse_beacon_message_json env cfg k node_id_list flags wdNode g =
     (if failover_when_quorum_exists cfg = False then (FAILOVER_RES_PROCEED, flags, g)
      else if flags AND REQ_DETAIL_CONFIRMED \<noteq> 0 then (FAILOVER_RES_PROCEED, flags, g)
      else
        let g1 = update_quorum_status parse_beacon_message_json env cfg g in
        if quorum_status g1 < 0 then (FAILOVER_RES_NO_QUORUM, flags, g1)
        else if failover_require_consensus cfg = True
        then
          (case add_failover env cfg k node_id_list wdNode flags g1 of
             (i, duplicate, g2) \<Rightarrow>
               (let failoverObj = wdCurrentFailovers g2 ! i in
                if request_count failoverObj < get_minimum_votes_to_resolve_consensus cfg g2
                then
                  (if duplicate \<and> \<not> allow_multiple_failover_requests_from_node cfg
                   then (FAILOVER_RES_CONSENSUS_MAY_FAIL, flags, g2)
                   else (FAILOVER_RES_BUILDING_CONSENSUS, flags, g2))
                else (FAILOVER_RES_PROCEED, reqFlags failoverObj, remove_failover_object i g2)))
        else (FAILOVER_RES_PROCEED, flags, g1))"

text \<open>
  Every proposal lists each requesting node once and counts one vote for each of them.
\<close>

definition votes_counted_once :: "wd_cluster \<Rightarrow> bool" where
  "votes_counted_once g \<longleftrightarrow>
     list_all (\<lambda>failoverObj. distinct (requestingNodes failoverObj) \<and>
                 request_count failoverObj = int (length (requestingNodes failoverObj)))
       (wdCurrentFailovers g)"

section \<open>The expiry pass\<close>

text \<open>
  Modelled from the spec: \<^verbatim>\<open>WD_TIME_DIFF_SEC\<close> is a macro of \<^verbatim>\<open>watchdog.h\<close>, which is
  not among the sources; the spec speaks of the age of a proposal in seconds, so the macro
  is the number of whole seconds between two instants.
\<close>

definition WD_TIME_DIFF_SEC :: "int \<Rightarrow> int \<Rightarrow> int" where
  "WD_TIME_DIFF_SEC a b = a - b"

definition failover_is_expired :: "wd_env \<Rightarrow> WDFailoverObject \<Rightarrow> bool" where
  "failover_is_expired env failoverObj \<longleftrightarrow>
     WD_TIME_DIFF_SEC (now env) (startTime failoverObj) \<ge> FAILOVER_COMMAND_FINISH_TIMEOUT"

text \<open>The innermost loop: does some node of the proposal make the coordinator resign?\<close>

fun quarantined_primary_in :: "pool_shared \<Rightarrow> int list \<Rightarrow> bool" where
  "quarantined_primary_in shm [] = False"
| "quarantined_primary_in shm (node_id # rest) =
     ((node_id \<noteq> - 1 \<and>
       primary_node_id shm = - 1 \<and>
       quarantine (BACKEND_INFO shm node_id) = True \<and>
       role (BACKEND_INFO shm node_id) = ROLE_PRIMARY)
      \<or> quarantined_primary_in shm rest)"

text \<open>The loop over the requesting nodes of one expired proposal.\<close>

fun requested_by_local_and_quarantined :: "pool_shared \<Rightarrow> WDFailoverObject \<Rightarrow> node_ref list \<Rightarrow> bool" where
  "requested_by_local_and_quarantined shm failoverObj [] = False"
| "requested_by_local_and_quarantined shm failoverObj (reqWdNode # rest) =
     ((reqWdNode = LocalNode \<and> quarantined_primary_in shm (nodeList failoverObj))
      \<or> requested_by_local_and_quarantined shm failoverObj rest)"

text \<open>
  The first loop of \<^verbatim>\<open>service_expired_failovers\<close>: it collects the expired proposals and
  computes \<^verbatim>\<open>need_to_resign\<close>.
\<close>

fun mark_expired_failovers ::
  "wd_env \<Rightarrow> pool_shared \<Rightarrow> WDFailoverObject list \<Rightarrow> bool \<Rightarrow> WDFailoverObject list \<times> bool" where
  "mark_expired_failovers env shm [] need_to_resign = ([], need_to_resign)"
| "mark_expired_failovers env shm (failoverObj # rest) need_to_resign =
     (if failover_is_expired env failoverObj
      then
        (let need = (if \<not> need_to_resign \<and> reqKind failoverObj = NODE_DOWN_REQUEST
                     then requested_by_local_and_quarantined shm failoverObj
                            (requestingNodes failoverObj)
                     else need_to_resign)
         in case mark_expired_failovers env shm rest need of
              (kept, n) \<Rightarrow> (kept, n))
      else
        (case mark_expired_failovers env shm rest need_to_resign of
           (kept, n) \<Rightarrow> (failoverObj # kept, n)))"

definition service_expired_failovers ::
  "wd_env \<Rightarrow> pool_config \<Rightarrow> pool_shared \<Rightarrow> wd_cluster \<Rightarrow> wd_cluster" where
  "service_expired_failovers env cfg shm g =
     (if state (localNode g) \<noteq> WD_COORDINATOR then g
      else
        (case mark_expired_failovers env shm (wdCurrentFailovers g) False of
           (kept, need_to_resign) \<Rightarrow>
             (let g1 = g\<lparr>wdCurrentFailovers := kept\<rparr> in
              if need_to_resign
              then
                set_state env cfg WD_JOINING
                  (send_cluster_service_message None None CLUSTER_IAM_RESIGNING_FROM_MASTER
                     (g1\<lparr>localNode := (localNode g1)\<lparr>wd_priority := - 1\<rparr>\<rparr>))
              else g1)))"

section \<open>The command tracker\<close>

text \<open>
  \<^verbatim>\<open>watchdog_internal_command_packet_processor\<close> works on \<^verbatim>\<open>g_cluster.clusterCommands\<close>. It
  calls the standard packet processor for an \<^verbatim>\<open>I\<close> packet and the state machine for a
  finished command; the calls are returned in order, their effect is not part of the
  function. A command that the state machine issues in reaction is appended to the list
  before the finished one is unlinked.
\<close>

datatype tracker_call =
    CallStandardPacketProcessor nat WDPacketData
  | CallStateMachine wd_event

definition clear_command_node_result :: "WDCommandNodeResult \<Rightarrow> WDCommandNodeResult" where
  "clear_command_node_result nodeResult =
     nodeResult\<lparr>result_type := WD_NO_MESSAGE, result_data := None, result_data_len := 0,
                cmdState := COMMAMD_STATE_INIT\<rparr>"

fun get_wd_command_from_reply :: "WDCommandData list \<Rightarrow> WDPacketData \<Rightarrow> nat option" where
  "get_wd_command_from_reply [] pkt = None"
| "get_wd_command_from_reply (ipcCommand # rest) pkt =
     (if command_id (commandPacket ipcCommand) = command_id pkt then Some 0
      else map_option Suc (get_wd_command_from_reply rest pkt))"

text \<open>
  The loop that looks for the result slot of the replying node: it clears every slot it
  visits, the one it stops at included, and yields the position of that slot.
\<close>

fun find_node_result ::
  "nat \<Rightarrow> WDCommandNodeResult list \<Rightarrow> WDCommandNodeResult list \<times> nat option" where
  "find_node_result wdNode [] = ([], None)"
| "find_node_result wdNode (nodeRes # rest) =
     (let cleared = clear_command_node_result nodeRes in
      if res_wdNode cleared = wdNode then (cleared # rest, Some 0)
      else (case find_node_result wdNode rest of
              (rest', found) \<Rightarrow> (cleared # rest', map_option Suc found)))"

definition is_reject_or_error :: "WDPacketData \<Rightarrow> bool" where
  "is_reject_or_error pkt \<longleftrightarrow> pkt_type pkt = WD_REJECT_MESSAGE \<or> pkt_type pkt = WD_ERROR_MESSAGE"

definition watchdog_internal_command_packet_processor ::
  "nat \<Rightarrow> WDPacketData \<Rightarrow> WDCommandData list \<Rightarrow> bool \<times> WDCommandData list \<times> tracker_call list" where
  "watchdog_internal_command_packet_processor wdNode pkt clusterCommands =
     (case get_wd_command_from_reply clusterCommands pkt of
        None \<Rightarrow> (False, clusterCommands, [])
      | Some ci \<Rightarrow>
          (let clusterCommand = clusterCommands ! ci in
           if commandStatus clusterCommand \<noteq> COMMAND_IN_PROGRESS
           then (False, clusterCommands, [])
           else if pkt_type pkt \<noteq> WD_ERROR_MESSAGE \<and> pkt_type pkt \<noteq> WD_ACCEPT_MESSAGE \<and>
                   pkt_type pkt \<noteq> WD_REJECT_MESSAGE \<and> pkt_type pkt \<noteq> WD_INFO_MESSAGE
           then (False, clusterCommands, [])
           else
             (let calls = (if pkt_type pkt = WD_INFO_MESSAGE
                           then [CallStandardPacketProcessor wdNode pkt] else [])
              in case find_node_result wdNode (nodeResults clusterCommand) of
                   (cleared, None) \<Rightarrow>
                     (True, clusterCommands[ci := clusterCommand\<lparr>nodeResults := cleared\<rparr>], calls)
                 | (cleared, Some ri) \<Rightarrow>
                     (let replied = cleared[ri := (cleared ! ri)
                                        \<lparr>result_type := pkt_type pkt,
                                         cmdState := COMMAND_STATE_REPLIED\<rparr>];
                          c1 = clusterCommand
                                 \<lparr>nodeResults := replied,
                                  commandReplyFromCount :=
                                    commandReplyFromCount clusterCommand + 1\<rparr>;
                          unlinked = take ci clusterCommands @ drop (Suc ci) clusterCommands
                      in if commandReplyFromCount c1 \<ge> commandSendToCount c1
                         then
                           (let c2 = c1\<lparr>commandStatus :=
                                          (if is_reject_or_error pkt
                                           then COMMAND_FINISHED_NODE_REJECTED
                                           else COMMAND_FINISHED_ALL_REPLIED)\<rparr>
                            in (True, unlinked,
                                calls @ [CallStateMachine
                                           (CommandFinished (Some wdNode) (Some pkt) c2)]))
                         else if is_reject_or_error pkt
                         then
                           (let c2 = c1\<lparr>commandStatus := COMMAND_FINISHED_NODE_REJECTED\<rparr>
                            in (True, unlinked,
                                calls @ [CallStateMachine
                                           (CommandFinished (Some wdNode) (Some pkt) c2)]))
                         else (True, clusterCommands[ci := c1], calls)))))"

section \<open>Authentication of IPC commands\<close>

text \<open>
  Modelled from the spec: the two accessors of \<^verbatim>\<open>wd_json_data.c\<close> and the names of the two
  keys (\<^verbatim>\<open>wd_ipc_defines.h\<close>) are not among the sources. The spec says that every IPC frame
  is a JSON object that may carry \<open>IPCSharedKey\<close>, an unsigned 32-bit integer, and
  \<open>IPCAuthKey\<close>, a string. \<open>json_get_int_value_for_key\<close> yields the integer stored under the
  key of an object (the source tests its result for failure),
  \<open>json_get_string_value_for_key\<close> the string.
\<close>

definition WD_IPC_SHARED_KEY :: string where
  "WD_IPC_SHARED_KEY = ''IPCSharedKey''"

definition WD_IPC_AUTH_KEY :: string where
  "WD_IPC_AUTH_KEY = ''IPCAuthKey''"

definition json_get_int_value_for_key :: "json_value \<Rightarrow> string \<Rightarrow> int option" where
  "json_get_int_value_for_key source k =
     (case source of
        json_object members \<Rightarrow>
          (case map_of members k of Some (json_integer v) \<Rightarrow> Some v | _ \<Rightarrow> None)
      | _ \<Rightarrow> None)"

definition json_get_string_value_for_key :: "json_value \<Rightarrow> string \<Rightarrow> string option" where
  "json_get_string_value_for_key source k =
     (case source of
        json_object members \<Rightarrow>
          (case map_of members k of Some (json_string v) \<Rightarrow> Some v | _ \<Rightarrow> None)
      | _ \<Rightarrow> None)"

text \<open>
  \<^verbatim>\<open>check_IPC_client_authentication\<close>. \<open>shared_key\<close> is what \<^verbatim>\<open>get_ipc_shared_key()\<close> returns,
  \<open>None\<close> for \<^verbatim>\<open>NULL\<close>. The result is \<open>None\<close> where the source dereferences the null
  pointer (an external command with a shared key in its payload before the key is set up).
\<close>

definition check_IPC_client_authentication ::
  "pool_config \<Rightarrow> wd_cluster \<Rightarrow> 32 word option \<Rightarrow> json_value \<Rightarrow> bool \<Rightarrow> bool option" where
  "check_IPC_client_authentication cfg g shared_key rootObj internal_client_only =
     (let packet_key = map_option word_of_int (json_get_int_value_for_key rootObj WD_IPC_SHARED_KEY);
          has_shared_key = (packet_key \<noteq> None)
      in if internal_client_only
         then (case shared_key of
                 None \<Rightarrow> Some False
               | Some sk \<Rightarrow>
                   if has_shared_key = False then Some False
                   else if Some sk \<noteq> packet_key then Some False
                   else Some True)
         else if ipc_auth_needed g = False then Some True
         else if has_shared_key = True \<and> shared_key = None then None
         else if has_shared_key = True \<and> shared_key = packet_key then Some True
         else (case json_get_string_value_for_key rootObj WD_IPC_AUTH_KEY of
                 None \<Rightarrow> Some False
               | Some packet_auth_key \<Rightarrow>
                   if wd_authkey cfg \<noteq> packet_auth_key then Some False else Some True))"

text \<open>
  \<^verbatim>\<open>check_and_report_IPC_authentication\<close> returns the verdict and the command, whose
  \<^verbatim>\<open>errorMessage\<close> it may have set. The JSON parser is a parameter; it yields \<open>None\<close> for
  \<^verbatim>\<open>NULL\<close>.
\<close>

definition check_and_report_IPC_authentication ::
  "(string \<Rightarrow> json_value option) \<Rightarrow> pool_config \<Rightarrow> wd_cluster \<Rightarrow> 32 word option \<Rightarrow> ipc_command
     \<Rightarrow> (bool \<times> ipc_command) option" where
  "check_and_report_IPC_authentication json_parse cfg g shared_key ipcCommand =
     (let internal_client_only =
            (case sourcePacket_type ipcCommand of
               WD_NODE_STATUS_CHANGE_COMMAND \<Rightarrow> Some False
             | WD_REGISTER_FOR_NOTIFICATION \<Rightarrow> Some False
             | WD_GET_NODES_LIST_COMMAND \<Rightarrow> Some False
             | WD_GET_RUNTIME_VARIABLE_VALUE \<Rightarrow> Some False
             | WD_IPC_FAILOVER_COMMAND \<Rightarrow> Some True
             | WD_IPC_ONLINE_RECOVERY_COMMAND \<Rightarrow> Some True
             | WD_GET_MASTER_DATA_REQUEST \<Rightarrow> Some True
             | _ \<Rightarrow> None)
      in case internal_client_only of
           None \<Rightarrow> Some (True, ipcCommand)
         | Some internal \<Rightarrow>
             if internal = False \<and> ipc_auth_needed g = False then Some (True, ipcCommand)
             else
               (case sourcePacket_data ipcCommand of
                  None \<Rightarrow>
                    Some (False, ipcCommand\<lparr>errorMessage := Some ''authentication failed: invalid data''\<rparr>)
                | Some d \<Rightarrow>
                    if sourcePacket_len ipcCommand \<le> 0
                    then Some (False, ipcCommand\<lparr>errorMessage := Some ''authentication failed: invalid data''\<rparr>)
                    else
                      (case json_parse d of
                         Some (json_object members) \<Rightarrow>
                           (case check_IPC_client_authentication cfg g shared_key
                                   (json_object members) internal of
                              None \<Rightarrow> None
                            | Some True \<Rightarrow> Some (True, ipcCommand)
                            | Some False \<Rightarrow>
                                Some (False, ipcCommand\<lparr>errorMessage :=
                                               Some ''authentication failed: invalid KEY''\<rparr>))
                       | _ \<Rightarrow>
                           Some (False, ipcCommand\<lparr>errorMessage :=
                                          Some ''authentication failed: invalid data''\<rparr>))))"

text \<open>
  \<^verbatim>\<open>process_IPC_command\<close>: authentication first, then the switch over the command type. The
  handlers of the known types are a parameter; an unknown type is an error.
\<close>

definition process_IPC_command ::
  "(string \<Rightarrow> json_value option) \<Rightarrow> pool_config \<Rightarrow> 32 word option
     \<Rightarrow> (ipc_command \<Rightarrow> wd_cluster \<Rightarrow> IPC_CMD_PREOCESS_RES \<times> ipc_command \<times> wd_cluster)
     \<Rightarrow> ipc_command \<Rightarrow> wd_cluster \<Rightarrow> (IPC_CMD_PREOCESS_RES \<times> ipc_command \<times> wd_cluster) option" where
  "process_IPC_command json_parse cfg shared_key handlers ipcCommand g =
     (case check_and_report_IPC_authentication json_parse cfg g shared_key ipcCommand of
        None \<Rightarrow> None
      | Some (False, c) \<Rightarrow> Some (IPC_CMD_ERROR, c, g)
      | Some (True, c) \<Rightarrow>
          (case sourcePacket_type c of
             WD_IPC_UNKNOWN_COMMAND t \<Rightarrow>
               Some (IPC_CMD_ERROR, c\<lparr>errorMessage := Some ''unknown IPC command type''\<rparr>, g)
           | _ \<Rightarrow> Some (handlers c g)))"

text \<open>
  The part of \<^verbatim>\<open>read_ipc_socket_and_process\<close> that follows the reading of the frame: the
  command is processed and, unless it is kept for later or complete, answered with a result
  frame. The second component of the result is the value that the function returns.
\<close>

definition read_ipc_socket_and_process ::
  "(string \<Rightarrow> json_value option) \<Rightarrow> pool_config \<Rightarrow> 32 word option
     \<Rightarrow> (ipc_command \<Rightarrow> wd_cluster \<Rightarrow> IPC_CMD_PREOCESS_RES \<times> ipc_command \<times> wd_cluster)
     \<Rightarrow> ipc_command \<Rightarrow> wd_cluster \<Rightarrow> (bool \<times> wd_cluster) option" where
  "read_ipc_socket_and_process json_parse cfg shared_key handlers ipcCommand g =
     (case process_IPC_command json_parse cfg shared_key handlers ipcCommand g of
        None \<Rightarrow> None
      | Some (res, c, g1) \<Rightarrow>
          if res = IPC_CMD_PROCESSING
          then Some (True, emit (KeepIPCCommand (sourceIPCSocket c)) g1)
          else if res \<noteq> IPC_CMD_COMPLETE
          then
            (let res_type = (case res of
                               IPC_CMD_TRY_AGAIN \<Rightarrow> WD_IPC_CMD_CLUSTER_IN_TRAN
                             | IPC_CMD_ERROR \<Rightarrow> WD_IPC_CMD_RESULT_BAD
                             | IPC_CMD_OK \<Rightarrow> WD_IPC_CMD_RESULT_OK
                             | _ \<Rightarrow> WD_IPC_CMD_RESULT_BAD)
             in Some (res \<noteq> IPC_CMD_ERROR,
                      emit (WriteIPCResult (sourceIPCSocket c) res_type (errorMessage c)) g1))
          else Some (res \<noteq> IPC_CMD_ERROR, g1))"

section \<open>The orders that the specification names\<close>

text \<open>
  The election: the specification compares the pairs (priority, minus startup time) of two
  nodes lexicographically. These two definitions follow the words of the specification; the
  theorems compare them with what the handler does.
\<close>

definition spec_election_key :: "WatchdogNode \<Rightarrow> int \<times> int" where
  "spec_election_key n = (wd_priority n, - startup_time n)"

definition spec_lex_ge :: "int \<times> int \<Rightarrow> int \<times> int \<Rightarrow> bool" where
  "spec_lex_ge a b \<longleftrightarrow> fst a > fst b \<or> (fst a = fst b \<and> snd a \<ge> snd b)"

text \<open>
  Split brain: the specification names four criteria in order: an escalated node beats one
  that is not; else the greater quorum status wins; else the greater number of standbys; else
  the node that has been coordinator for longer. The definition says when the remote side is
  the worthier one; the first four arguments describe the local node, the last four the remote
  one.
\<close>

definition spec_remote_is_worthier ::
  "bool \<Rightarrow> int \<Rightarrow> int \<Rightarrow> int \<Rightarrow> bool \<Rightarrow> int \<Rightarrow> int \<Rightarrow> int \<Rightarrow> bool" where
  "spec_remote_is_worthier l_escalated l_quorum l_standbys l_since
                           r_escalated r_quorum r_standbys r_since \<longleftrightarrow>
     (if r_escalated \<noteq> l_escalated then r_escalated
      else if r_quorum \<noteq> l_quorum then r_quorum > l_quorum
      else if r_standbys \<noteq> l_standbys then r_standbys > l_standbys
      else r_since < l_since)"

section \<open>Concrete inputs\<close>

text \<open>The inputs at which the theorems below are instantiated and the code is run.\<close>

definition ex_config :: pool_config where
  "ex_config =
     \<lparr>failover_when_quorum_exists = True, failover_require_consensus = True,
      allow_multiple_failover_requests_from_node = False,
      enable_consensus_with_half_votes = False, cfg_wd_priority = 1, wd_authkey = ''secret''\<rparr>"

definition ex_env :: wd_env where
  "ex_env = \<lparr>now = 100, child_exits = [], fork_escalation_process = 4242,
             fork_plunging_process = 4343\<rparr>"

definition ex_node :: WatchdogNode where
  "ex_node =
     \<lparr>state = WD_STANDBY, wd_priority = 1, startup_time = 20, current_state_time = 50,
      node_quorum_status = 0, node_standby_nodes_count = 0, escalated = False,
      delegate_ip = ''''\<rparr>"

text \<open>A coordinator with \<open>n\<close> remote nodes, all of them standbys, and no pending proposal.\<close>

definition ex_cluster :: "int \<Rightarrow> wd_cluster" where
  "ex_cluster n =
     \<lparr>localNode = ex_node\<lparr>state := WD_COORDINATOR, startup_time := 10, node_quorum_status := 1,
                           node_standby_nodes_count := n\<rparr>,
      remoteNodes = (\<lambda>_. ex_node), masterNode = Some LocalNode, standby_nodes_count = n,
      holding_vip = False, remoteNodeCount = n, quorum_status = 1, nextCommandID = 1,
      escalation_pid = 0, de_escalation_pid = 0, ipc_auth_needed = True,
      wdCurrentFailovers = [], out = []\<rparr>"

definition ex_no_beacon :: "string \<Rightarrow> beacon_fields option" where
  "ex_no_beacon s = None"

text \<open>A proposal to detach backend 0 for which only the local node has voted so far.\<close>

definition ex_proposal :: WDFailoverObject where
  "ex_proposal =
     \<lparr>reqKind = NODE_DOWN_REQUEST, reqFlags = 0, failoverID = 2, nodeList = [0],
      requestingNodes = [LocalNode], request_count = 1, startTime = 100\<rparr>"

definition ex_pending :: "int \<Rightarrow> wd_cluster" where
  "ex_pending n = (ex_cluster n)\<lparr>nextCommandID := 2, wdCurrentFailovers := [ex_proposal]\<rparr>"

text \<open>
  Two nodes of equal priority standing for coordinator, each as the other one sees it: A
  started at second 10, B at second 20.
\<close>

definition ex_standing :: "int \<Rightarrow> int \<Rightarrow> wd_cluster" where
  "ex_standing own_startup peer_startup =
     (ex_cluster 1)
       \<lparr>localNode := ex_node\<lparr>state := WD_STAND_FOR_COORDINATOR, wd_priority := 2,
                              startup_time := own_startup\<rparr>,
        remoteNodes := (\<lambda>_. ex_node\<lparr>state := WD_STAND_FOR_COORDINATOR, wd_priority := 2,
                                     startup_time := peer_startup\<rparr>),
        masterNode := None, standby_nodes_count := 0\<rparr>"

definition ex_packet :: "char \<Rightarrow> string \<Rightarrow> WDPacketData" where
  "ex_packet t d = \<lparr>pkt_type = t, command_id = 7, pkt_len = int (length d),
                    pkt_data = (if d = [] then None else Some d)\<rparr>"

definition ex_command :: "char \<Rightarrow> WDCommandStatus \<Rightarrow> WDCommandData" where
  "ex_command t s =
     \<lparr>commandPacket = ex_packet t [], nodeResults = [], commandStatus = s,
      commandSendToCount = 1, commandReplyFromCount = 1\<rparr>"

text \<open>
  A beacon parser for the examples: the payload \<open>''escalated''\<close> is the beacon of a coordinator
  that holds the virtual IP, \<open>''plain''\<close> that of one that does not; anything else does not
  parse.
\<close>

definition ex_parse_beacon :: "string \<Rightarrow> beacon_fields option" where
  "ex_parse_beacon d =
     (if d = ''escalated'' \<or> d = ''plain''
      then Some \<lparr>beacon_state = WD_COORDINATOR, seconds_since_node_startup = 80,
                 seconds_since_current_state = 40, beacon_quorum_status = 1,
                 beacon_standby_nodes_count = 0, beacon_escalated = (d = ''escalated'')\<rparr>
      else None)"

text \<open>The coordinator of a singleton cluster, holding the virtual IP.\<close>

definition ex_escalated :: wd_cluster where
  "ex_escalated =
     (ex_cluster 0)\<lparr>localNode := (localNode (ex_cluster 0))\<lparr>escalated := True\<rparr>,
                    holding_vip := True\<rparr>"

definition ex_beacon :: "bool \<Rightarrow> beacon_fields" where
  "ex_beacon e =
     \<lparr>beacon_state = WD_COORDINATOR, seconds_since_node_startup = 80,
      seconds_since_current_state = 40, beacon_quorum_status = 1,
      beacon_standby_nodes_count = 0, beacon_escalated = e\<rparr>"

text \<open>
  The shared memory of the middleware: backend 0 is a quarantined primary, the others are
  healthy standbys; \<open>p\<close> is the primary node id on record.
\<close>

definition ex_shared :: "int \<Rightarrow> pool_shared" where
  "ex_shared p =
     \<lparr>primary_node_id = p,
      BACKEND_INFO = (\<lambda>n. if n = 0 then \<lparr>quarantine = True, role = ROLE_PRIMARY\<rparr>
                          else \<lparr>quarantine = False, role = ROLE_STANDBY\<rparr>)\<rparr>"

definition ex_env_later :: wd_env where
  "ex_env_later = ex_env\<lparr>now := 120\<rparr>"

text \<open>
  A command in progress that was sent to three nodes (command id 7), and the reply
  \<open>Accept\<close> to it.
\<close>

definition ex_slot :: "nat \<Rightarrow> WDCommandNodeResult" where
  "ex_slot n = \<lparr>res_wdNode = n, cmdState = COMMAND_STATE_SENT, result_type = WD_NO_MESSAGE,
               result_data_len = 0, result_data = None\<rparr>"

definition ex_tracked :: WDCommandData where
  "ex_tracked =
     \<lparr>commandPacket = ex_packet WD_REQ_INFO_MESSAGE [],
      nodeResults = [ex_slot 0, ex_slot 1, ex_slot 2],
      commandStatus = COMMAND_IN_PROGRESS, commandSendToCount = 3, commandReplyFromCount = 0\<rparr>"

definition ex_after_reply :: "nat \<Rightarrow> WDCommandData list" where
  "ex_after_reply n =
     ((\<lambda>cs. fst (snd (watchdog_internal_command_packet_processor 0
                        (ex_packet WD_ACCEPT_MESSAGE []) cs))) ^^ n) [ex_tracked]"

text \<open>
  IPC: a JSON parser for the examples (\<open>''object''\<close> is an empty object, \<open>''authkey''\<close> an object
  that carries the configured \<open>IPCAuthKey\<close> only, \<open>''array''\<close> an array, anything else does not
  parse), a failover command with a given payload, and a handler that would record a
  proposal if it were reached.
\<close>

definition ex_json_parse :: "string \<Rightarrow> json_value option" where
  "ex_json_parse d =
     (if d = ''object'' then Some (json_object [])
      else if d = ''authkey'' then Some (json_object [(WD_IPC_AUTH_KEY, json_string ''secret'')])
      else if d = ''array'' then Some (json_array [])
      else None)"

definition ex_failover_command :: "string \<Rightarrow> ipc_command" where
  "ex_failover_command d =
     \<lparr>sourcePacket_type = WD_IPC_FAILOVER_COMMAND, sourcePacket_len = int (length d),
      sourcePacket_data = (if d = [] then None else Some d), sourceIPCSocket = 9,
      errorMessage = None\<rparr>"

definition ex_handlers :: "ipc_command \<Rightarrow> wd_cluster \<Rightarrow> IPC_CMD_PREOCESS_RES \<times> ipc_command \<times> wd_cluster" where
  "ex_handlers c g = (IPC_CMD_COMPLETE, c, g\<lparr>wdCurrentFailovers := [ex_proposal]\<rparr>)"

section \<open>Properties\<close>

lemma smod_two_nonneg: "0 \<le> (r::int) \<Longrightarrow> r smod 2 = r mod 2"
  by (cases "r = 0") (simp_all add: signed_modulo_int_def)

lemma sdiv_two_nonneg: "0 \<le> (r::int) \<Longrightarrow> r sdiv 2 = r div 2"
  by (cases "r = 0") (simp_all add: signed_divide_int_def)

text \<open>
  C2. A cluster of \<open>N\<close> nodes has \<open>remote = N - 1\<close> remote nodes. The minimum number of
  remote nodes for quorum is \<open>remote / 2\<close> for even \<open>remote\<close> and \<open>(remote - 1) / 2\<close> for odd
  \<open>remote\<close>; the minimum number of votes is that plus one, plus one more when \<open>N\<close> is even
  and \<open>enable_consensus_with_half_votes\<close> is off. For \<open>N = 4\<close> with the option off this
  gives three votes.
\<close>

theorem C2_minimum_votes:
  assumes "1 \<le> N" and "remoteNodeCount g = N - 1"
  shows "get_mimimum_remote_nodes_required_for_quorum g =
           (if even (N - 1) then (N - 1) div 2 else ((N - 1) - 1) div 2)
       \<and> get_minimum_votes_to_resolve_consensus cfg g =
           get_mimimum_remote_nodes_required_for_quorum g + 1
             + (if even N \<and> \<not> enable_consensus_with_half_votes cfg then 1 else 0)
       \<and> (N = 4 \<and> \<not> enable_consensus_with_half_votes cfg
            \<longrightarrow> get_minimum_votes_to_resolve_consensus cfg g = 3)"
proof -
  have r: "0 \<le> remoteNodeCount g" using assms by simp
  have m: "remoteNodeCount g smod 2 = (N - 1) mod 2"
    using r assms(2) by (simp add: smod_two_nonneg)
  have q: "get_mimimum_remote_nodes_required_for_quorum g =
           (if even (N - 1) then (N - 1) div 2 else ((N - 1) - 1) div 2)"
  proof (cases "even (N - 1)")
    case True
    then have "remoteNodeCount g smod 2 = 0" using m by presburger
    moreover have "remoteNodeCount g sdiv 2 = (N - 1) div 2"
      using r assms(2) by (simp add: sdiv_two_nonneg)
    ultimately show ?thesis
      using True by (simp add: get_mimimum_remote_nodes_required_for_quorum_def)
  next
    case False
    then have "remoteNodeCount g smod 2 \<noteq> 0" using m by presburger
    moreover have "0 \<le> remoteNodeCount g - 1" using False assms by presburger
    then have "(remoteNodeCount g - 1) sdiv 2 = (N - 1 - 1) div 2"
      using assms(2) by (simp add: sdiv_two_nonneg)
    ultimately show ?thesis
      using False by (simp add: get_mimimum_remote_nodes_required_for_quorum_def)
  qed
  have v: "get_minimum_votes_to_resolve_consensus cfg g =
           get_mimimum_remote_nodes_required_for_quorum g + 1
             + (if even N \<and> \<not> enable_consensus_with_half_votes cfg then 1 else 0)"
  proof (cases "even N")
    case True
    then have "remoteNodeCount g smod 2 \<noteq> 0" unfolding m by presburger
    then show ?thesis
      using True by (simp add: get_minimum_votes_to_resolve_consensus_def Let_def)
  next
    case False
    then have "remoteNodeCount g smod 2 = 0" unfolding m by presburger
    then show ?thesis
      using False by (simp add: get_minimum_votes_to_resolve_consensus_def Let_def)
  qed
  have four: "N = 4 \<and> \<not> enable_consensus_with_half_votes cfg
            \<longrightarrow> get_minimum_votes_to_resolve_consensus cfg g = 3"
  proof
    assume a: "N = 4 \<and> \<not> enable_consensus_with_half_votes cfg"
    then have "get_mimimum_remote_nodes_required_for_quorum g = 1"
      unfolding q by simp
    then show "get_minimum_votes_to_resolve_consensus cfg g = 3"
      unfolding v using a by simp
  qed
  from q v four show ?thesis by blast
qed

theorem C2_minimum_votes_witness:
  "1 \<le> (4::int) \<and> remoteNodeCount (ex_cluster 3) = 4 - 1
   \<and> get_mimimum_remote_nodes_required_for_quorum (ex_cluster 3) = 1
   \<and> get_minimum_votes_to_resolve_consensus ex_config (ex_cluster 3) = 3"
  using C2_minimum_votes [of 4 "ex_cluster 3" ex_config]
  by (simp add: ex_cluster_def ex_config_def)

subsection \<open>What the helpers leave alone\<close>

lemma emit_frame [simp]:
  "wdCurrentFailovers (emit a g) = wdCurrentFailovers g"
  "remoteNodeCount (emit a g) = remoteNodeCount g"
  "localNode (emit a g) = localNode g"
  "quorum_status (emit a g) = quorum_status g"
  by (simp_all add: emit_def)

lemma send_message_frame [simp]:
  "wdCurrentFailovers (send_message w t i d g) = wdCurrentFailovers g"
  "remoteNodeCount (send_message w t i d g) = remoteNodeCount g"
  "localNode (send_message w t i d g) = localNode g"
  "quorum_status (send_message w t i d g) = quorum_status g"
  by (simp_all add: send_message_def)

lemma get_message_of_type_frame:
  "get_message_of_type t r g = (m, g') \<Longrightarrow>
     wdCurrentFailovers g' = wdCurrentFailovers g \<and> remoteNodeCount g' = remoteNodeCount g
     \<and> localNode g' = localNode g \<and> quorum_status g' = quorum_status g"
  by (auto simp: get_message_of_type_def get_next_commandID_def Let_def
           split: if_splits option.splits)

lemma send_message_of_type_frame [simp]:
  "wdCurrentFailovers (send_message_of_type w t r g) = wdCurrentFailovers g"
  "remoteNodeCount (send_message_of_type w t r g) = remoteNodeCount g"
  "localNode (send_message_of_type w t r g) = localNode g"
  "quorum_status (send_message_of_type w t r g) = quorum_status g"
proof -
  obtain m g' where e: "get_message_of_type t r g = (m, g')"
    by (cases "get_message_of_type t r g") auto
  note f = get_message_of_type_frame [OF e]
  have s: "send_message_of_type w t r g =
           (case m of Some (i, d) \<Rightarrow> send_message w t i d g' | None \<Rightarrow> g')"
    by (simp add: send_message_of_type_def e split: option.splits)
  show "wdCurrentFailovers (send_message_of_type w t r g) = wdCurrentFailovers g"
    "remoteNodeCount (send_message_of_type w t r g) = remoteNodeCount g"
    "localNode (send_message_of_type w t r g) = localNode g"
    "quorum_status (send_message_of_type w t r g) = quorum_status g"
    unfolding s using f by (cases m; force)+
qed

lemma wd_child_signal_handler_frame [simp]:
  "wdCurrentFailovers (wd_child_signal_handler ps g) = wdCurrentFailovers g"
  "remoteNodeCount (wd_child_signal_handler ps g) = remoteNodeCount g"
  "localNode (wd_child_signal_handler ps g) = localNode g"
  "quorum_status (wd_child_signal_handler ps g) = quorum_status g"
  by (induction ps arbitrary: g; simp)+

lemma wait_for_de_escalation_exit_frame [simp]:
  "wdCurrentFailovers (wait_for_de_escalation_exit n sig g) = wdCurrentFailovers g"
  "remoteNodeCount (wait_for_de_escalation_exit n sig g) = remoteNodeCount g"
  "localNode (wait_for_de_escalation_exit n sig g) = localNode g"
  "quorum_status (wait_for_de_escalation_exit n sig g) = quorum_status g"
  by (induction n arbitrary: sig g; simp)+

lemma wait_for_escalation_exit_frame [simp]:
  "wdCurrentFailovers (wait_for_escalation_exit n sig g) = wdCurrentFailovers g"
  "remoteNodeCount (wait_for_escalation_exit n sig g) = remoteNodeCount g"
  "localNode (wait_for_escalation_exit n sig g) = localNode g"
  "quorum_status (wait_for_escalation_exit n sig g) = quorum_status g"
  by (induction n arbitrary: sig g; simp)+

lemma start_escalated_node_frame [simp]:
  "wdCurrentFailovers (start_escalated_node env g) = wdCurrentFailovers g"
  "remoteNodeCount (start_escalated_node env g) = remoteNodeCount g"
  "quorum_status (start_escalated_node env g) = quorum_status g"
  by (simp_all add: start_escalated_node_def Let_def)

lemma resign_from_escalated_node_frame [simp]:
  "wdCurrentFailovers (resign_from_escalated_node env g) = wdCurrentFailovers g"
  "remoteNodeCount (resign_from_escalated_node env g) = remoteNodeCount g"
  "quorum_status (resign_from_escalated_node env g) = quorum_status g"
  by (simp_all add: resign_from_escalated_node_def Let_def)

lemma update_quorum_status_frame [simp]:
  "wdCurrentFailovers (update_quorum_status p env cfg g) = wdCurrentFailovers g"
  "remoteNodeCount (update_quorum_status p env cfg g) = remoteNodeCount g"
  by (simp_all add: update_quorum_status_def watchdog_state_machine_coordinator_def Let_def)

lemma get_failover_object_Some:
  "get_failover_object k nl fs = Some i \<Longrightarrow> i < length fs \<and> failover_object_matches k nl (fs ! i)"
proof (induction fs arbitrary: i)
  case Nil
  then show ?case by simp
next
  case (Cons f fs)
  show ?case
  proof (cases "failover_object_matches k nl f")
    case True
    with Cons.prems show ?thesis by simp
  next
    case False
    with Cons.prems obtain j where j: "get_failover_object k nl fs = Some j" "i = Suc j"
      by auto
    with Cons.IH [of j] show ?thesis by simp
  qed
qed

lemma get_minimum_votes_frame:
  "remoteNodeCount g' = remoteNodeCount g \<Longrightarrow>
   get_minimum_votes_to_resolve_consensus cfg g' = get_minimum_votes_to_resolve_consensus cfg g"
  by (simp add: get_minimum_votes_to_resolve_consensus_def
                get_mimimum_remote_nodes_required_for_quorum_def)

lemma add_failover_frame:
  "add_failover env cfg k nl w fl g = (i, d, g') \<Longrightarrow> remoteNodeCount g' = remoteNodeCount g"
  by (auto simp: add_failover_def get_next_commandID_def Let_def
           split: option.splits if_splits)

lemma add_failover_index:
  "add_failover env cfg k nl w fl g = (i, d, g') \<Longrightarrow> i < length (wdCurrentFailovers g')"
  by (auto simp: add_failover_def get_next_commandID_def Let_def
           dest: get_failover_object_Some
           split: option.splits if_splits)

lemma add_failover_duplicate_iff:
  "add_failover env cfg k nl w fl g = (i, d, g') \<Longrightarrow>
   d \<longleftrightarrow> (\<exists>j. get_failover_object k nl (wdCurrentFailovers g) = Some j \<and>
              w \<in> set (requestingNodes (wdCurrentFailovers g ! j)))"
  by (auto simp: add_failover_def get_next_commandID_def Let_def
           split: option.splits if_splits)

lemma list_all_update:
  "list_all P xs \<Longrightarrow> P y \<Longrightarrow> list_all P (xs[i := y])"
  by (induction xs arbitrary: i) (auto split: nat.splits)

lemma add_failover_votes_counted_once:
  assumes "\<not> allow_multiple_failover_requests_from_node cfg"
      and "votes_counted_once g"
      and "add_failover env cfg k nl w fl g = (i, d, g')"
  shows "votes_counted_once g'"
proof (cases "get_failover_object k nl (wdCurrentFailovers g)")
  case None
  with assms show ?thesis
    by (auto simp: add_failover_def get_next_commandID_def Let_def votes_counted_once_def)
next
  case (Some j)
  then have j: "j < length (wdCurrentFailovers g)" by (auto dest: get_failover_object_Some)
  let ?f = "wdCurrentFailovers g ! j"
  have f: "distinct (requestingNodes ?f) \<and> request_count ?f = int (length (requestingNodes ?f))"
    using assms(2) j by (simp add: votes_counted_once_def list_all_length)
  show ?thesis
  proof (cases "w \<in> set (requestingNodes ?f)")
    case True
    with assms Some show ?thesis by (simp add: add_failover_def Let_def)
  next
    case False
    with assms(3) Some have "wdCurrentFailovers g' = (wdCurrentFailovers g)
         [j := ?f\<lparr>request_count := request_count ?f + 1,
                  requestingNodes := requestingNodes ?f @ [w]\<rparr>]"
      by (auto simp: add_failover_def Let_def)
    then show ?thesis
      using assms(2) f False
      by (simp add: votes_counted_once_def list_all_update)
  qed
qed

lemmas ex_defs = ex_config_def ex_env_def ex_node_def ex_cluster_def ex_no_beacon_def
  ex_proposal_def ex_pending_def

lemmas consensus_defs = compute_failover_consensus_def add_failover_def update_quorum_status_def
  get_minimum_votes_to_resolve_consensus_def get_mimimum_remote_nodes_required_for_quorum_def
  failover_object_matches_def does_int_array_contains_value_def remove_failover_object_def
  get_next_commandID_def votes_counted_once_def signed_modulo_int_def signed_divide_int_def


subsection \<open>Votes\<close>

text \<open>
  C5. With \<open>allow_multiple_failover_requests_from_node\<close> off, a vote from a node that is already
  in the list of requesting nodes of the proposal is flagged as a duplicate and changes
  nothing, so the count of the proposal stays as it is; and if every proposal counted each of
  its requesting nodes once before the vote, so it does after it.
\<close>

theorem C5_duplicate_vote_not_counted:
  assumes "\<not> allow_multiple_failover_requests_from_node cfg"
      and "add_failover env cfg k nl wdNode flags g = (i, duplicate, g')"
  shows "((\<exists>j. get_failover_object k nl (wdCurrentFailovers g) = Some j \<and>
               wdNode \<in> set (requestingNodes (wdCurrentFailovers g ! j)))
            \<longrightarrow> duplicate \<and> g' = g \<and>
                request_count (wdCurrentFailovers g' ! i) = request_count (wdCurrentFailovers g ! i))
       \<and> (votes_counted_once g \<longrightarrow> votes_counted_once g')"
proof -
  have a: "(\<exists>j. get_failover_object k nl (wdCurrentFailovers g) = Some j \<and>
               wdNode \<in> set (requestingNodes (wdCurrentFailovers g ! j)))
            \<longrightarrow> duplicate \<and> g' = g \<and>
                request_count (wdCurrentFailovers g' ! i) = request_count (wdCurrentFailovers g ! i)"
    using assms by (auto simp: add_failover_def Let_def)
  have b: "votes_counted_once g \<longrightarrow> votes_counted_once g'"
    using add_failover_votes_counted_once [OF assms(1) _ assms(2)] by blast
  from a b show ?thesis by blast
qed

theorem C5_duplicate_vote_not_counted_witness:
  "\<not> allow_multiple_failover_requests_from_node ex_config
   \<and> add_failover ex_env ex_config NODE_DOWN_REQUEST [0] LocalNode 0 (ex_pending 2)
       = (0, True, ex_pending 2)
   \<and> get_failover_object NODE_DOWN_REQUEST [0] (wdCurrentFailovers (ex_pending 2)) = Some 0
   \<and> LocalNode \<in> set (requestingNodes (wdCurrentFailovers (ex_pending 2) ! 0))
   \<and> request_count (wdCurrentFailovers (ex_pending 2) ! 0) = 1
   \<and> votes_counted_once (ex_pending 2)"
proof -
  have h1: "\<not> allow_multiple_failover_requests_from_node ex_config"
    by (simp add: ex_config_def)
  have h2: "add_failover ex_env ex_config NODE_DOWN_REQUEST [0] LocalNode 0 (ex_pending 2)
              = (0, True, ex_pending 2)"
    by (simp add: ex_defs consensus_defs)
  have h3: "votes_counted_once (ex_pending 2)"
    by (simp add: ex_defs consensus_defs)
  show ?thesis
    using C5_duplicate_vote_not_counted [OF h1 h2] h1 h2 h3
    by (simp add: ex_defs consensus_defs)
qed

text \<open>
  C10. When the request needs consensus (quorum is required, the request is not flagged as
  confirmed, consensus is required), the quorum holds and the proposal is still short of the
  minimum number of votes after the vote was recorded, the result is
  \<open>FAILOVER_RES_CONSENSUS_MAY_FAIL\<close> for a vote of a node already recorded on the proposal
  with \<open>allow_multiple_failover_requests_from_node\<close> off, and
  \<open>FAILOVER_RES_BUILDING_CONSENSUS\<close> otherwise.
\<close>

theorem C10_duplicate_vote_may_fail:
  assumes "failover_when_quorum_exists cfg"
      and "flags AND REQ_DETAIL_CONFIRMED = 0"
      and "failover_require_consensus cfg"
      and "quorum_status (update_quorum_status p env cfg g) \<ge> 0"
      and "add_failover env cfg k nl wdNode flags (update_quorum_status p env cfg g)
             = (i, duplicate, g2)"
      and "request_count (wdCurrentFailovers g2 ! i) < get_minimum_votes_to_resolve_consensus cfg g2"
  shows "compute_failover_consensus p env cfg k nl flags wdNode g =
           ((if duplicate \<and> \<not> allow_multiple_failover_requests_from_node cfg
             then FAILOVER_RES_CONSENSUS_MAY_FAIL else FAILOVER_RES_BUILDING_CONSENSUS),
            flags, g2)
       \<and> (duplicate \<longleftrightarrow>
            (\<exists>j. get_failover_object k nl (wdCurrentFailovers g) = Some j \<and>
                 wdNode \<in> set (requestingNodes (wdCurrentFailovers g ! j))))"
proof -
  have "compute_failover_consensus p env cfg k nl flags wdNode g =
           ((if duplicate \<and> \<not> allow_multiple_failover_requests_from_node cfg
             then FAILOVER_RES_CONSENSUS_MAY_FAIL else FAILOVER_RES_BUILDING_CONSENSUS),
            flags, g2)"
    using assms by (simp add: compute_failover_consensus_def Let_def)
  moreover have "duplicate \<longleftrightarrow>
            (\<exists>j. get_failover_object k nl (wdCurrentFailovers g) = Some j \<and>
                 wdNode \<in> set (requestingNodes (wdCurrentFailovers g ! j)))"
    using add_failover_duplicate_iff [OF assms(5)] by simp
  ultimately show ?thesis by blast
qed

theorem C10_duplicate_vote_may_fail_witness:
  "failover_when_quorum_exists ex_config
   \<and> (0::8 word) AND REQ_DETAIL_CONFIRMED = 0
   \<and> failover_require_consensus ex_config
   \<and> quorum_status (update_quorum_status ex_no_beacon ex_env ex_config (ex_pending 3)) \<ge> 0
   \<and> add_failover ex_env ex_config NODE_DOWN_REQUEST [0] LocalNode 0
        (update_quorum_status ex_no_beacon ex_env ex_config (ex_pending 3)) = (0, True, ex_pending 3)
   \<and> request_count (wdCurrentFailovers (ex_pending 3) ! 0)
        < get_minimum_votes_to_resolve_consensus ex_config (ex_pending 3)
   \<and> compute_failover_consensus ex_no_beacon ex_env ex_config NODE_DOWN_REQUEST [0] 0 LocalNode
        (ex_pending 3) = (FAILOVER_RES_CONSENSUS_MAY_FAIL, 0, ex_pending 3)
   \<and> fst (compute_failover_consensus ex_no_beacon ex_env ex_config NODE_DOWN_REQUEST [0] 0
        (RemoteNode 0) (ex_pending 3)) = FAILOVER_RES_BUILDING_CONSENSUS"
proof -
  have u: "update_quorum_status ex_no_beacon ex_env ex_config (ex_pending 3) = ex_pending 3"
    by (simp add: ex_defs consensus_defs)
  have h1: "failover_when_quorum_exists ex_config" by (simp add: ex_config_def)
  have h2: "(0::8 word) AND REQ_DETAIL_CONFIRMED = 0" by simp
  have h3: "failover_require_consensus ex_config" by (simp add: ex_config_def)
  have h4: "quorum_status (update_quorum_status ex_no_beacon ex_env ex_config (ex_pending 3)) \<ge> 0"
    unfolding u by (simp add: ex_defs)
  have h5: "add_failover ex_env ex_config NODE_DOWN_REQUEST [0] LocalNode 0
        (update_quorum_status ex_no_beacon ex_env ex_config (ex_pending 3)) = (0, True, ex_pending 3)"
    unfolding u by (simp add: ex_defs consensus_defs)
  have h6: "request_count (wdCurrentFailovers (ex_pending 3) ! 0)
        < get_minimum_votes_to_resolve_consensus ex_config (ex_pending 3)"
    by (simp add: ex_defs consensus_defs)
  have first: "fst (compute_failover_consensus ex_no_beacon ex_env ex_config NODE_DOWN_REQUEST [0] 0
        (RemoteNode 0) (ex_pending 3)) = FAILOVER_RES_BUILDING_CONSENSUS"
    by (simp add: ex_defs consensus_defs)
  show ?thesis
    using C10_duplicate_vote_may_fail [OF h1 h2 h3 h4 h5 h6] h1 h2 h3 h4 h5 h6 first
    by (simp add: ex_config_def)
qed


text \<open>
  C1 (amended). A request that proceeds although quorum is required, the request is not flagged
  as confirmed and consensus is required, has a proposal whose count of votes, this vote
  included, has reached the minimum number of votes; the proposal is then removed and the flags
  of its first request are returned. With \<open>allow_multiple_failover_requests_from_node\<close> off
  (and every pending proposal counting each requesting node once) the votes are those of as many
  different requesting nodes.
\<close>

theorem C1_proceed_needs_votes:
  assumes "compute_failover_consensus p env cfg k nl flags wdNode g
             = (FAILOVER_RES_PROCEED, flags', g')"
      and "failover_when_quorum_exists cfg"
      and "flags AND REQ_DETAIL_CONFIRMED = 0"
      and "failover_require_consensus cfg"
  shows "\<exists>i duplicate g2.
           add_failover env cfg k nl wdNode flags (update_quorum_status p env cfg g)
             = (i, duplicate, g2)
         \<and> i < length (wdCurrentFailovers g2)
         \<and> get_minimum_votes_to_resolve_consensus cfg g
             \<le> request_count (wdCurrentFailovers g2 ! i)
         \<and> flags' = reqFlags (wdCurrentFailovers g2 ! i)
         \<and> g' = remove_failover_object i g2
         \<and> (\<not> allow_multiple_failover_requests_from_node cfg \<and> votes_counted_once g
              \<longrightarrow> distinct (requestingNodes (wdCurrentFailovers g2 ! i))
                \<and> get_minimum_votes_to_resolve_consensus cfg g
                     \<le> int (length (requestingNodes (wdCurrentFailovers g2 ! i))))"
proof -
  let ?g1 = "update_quorum_status p env cfg g"
  obtain i duplicate g2 where
    af: "add_failover env cfg k nl wdNode flags ?g1 = (i, duplicate, g2)"
    by (cases "add_failover env cfg k nl wdNode flags ?g1") auto
  have idx: "i < length (wdCurrentFailovers g2)"
    using af by (rule add_failover_index)
  have mv: "get_minimum_votes_to_resolve_consensus cfg g2
              = get_minimum_votes_to_resolve_consensus cfg g"
  proof -
    have "remoteNodeCount g2 = remoteNodeCount g"
      using add_failover_frame [OF af] by simp
    then show ?thesis by (rule get_minimum_votes_frame)
  qed
  have q: "\<not> quorum_status ?g1 < 0"
  proof
    assume "quorum_status ?g1 < 0"
    then have "fst (compute_failover_consensus p env cfg k nl flags wdNode g) = FAILOVER_RES_NO_QUORUM"
      using assms(2,3) by (simp add: compute_failover_consensus_def Let_def)
    with assms(1) show False by simp
  qed
  have short: "\<not> request_count (wdCurrentFailovers g2 ! i)
                 < get_minimum_votes_to_resolve_consensus cfg g2"
  proof
    assume "request_count (wdCurrentFailovers g2 ! i)
              < get_minimum_votes_to_resolve_consensus cfg g2"
    then have "fst (compute_failover_consensus p env cfg k nl flags wdNode g) \<noteq> FAILOVER_RES_PROCEED"
      using assms(2,3,4) q af by (simp add: compute_failover_consensus_def Let_def)
    with assms(1) show False by simp
  qed
  have res: "compute_failover_consensus p env cfg k nl flags wdNode g
               = (FAILOVER_RES_PROCEED, reqFlags (wdCurrentFailovers g2 ! i),
                  remove_failover_object i g2)"
    using assms(2,3,4) q af short by (simp add: compute_failover_consensus_def Let_def)
  have enough: "get_minimum_votes_to_resolve_consensus cfg g
                  \<le> request_count (wdCurrentFailovers g2 ! i)"
    using short mv by simp
  have fl: "flags' = reqFlags (wdCurrentFailovers g2 ! i)"
    using res assms(1) by simp
  have rm: "g' = remove_failover_object i g2"
    using res assms(1) by simp
  have once: "\<not> allow_multiple_failover_requests_from_node cfg \<and> votes_counted_once g
              \<longrightarrow> distinct (requestingNodes (wdCurrentFailovers g2 ! i))
                \<and> get_minimum_votes_to_resolve_consensus cfg g
                     \<le> int (length (requestingNodes (wdCurrentFailovers g2 ! i)))"
  proof
    assume a: "\<not> allow_multiple_failover_requests_from_node cfg \<and> votes_counted_once g"
    then have "votes_counted_once ?g1" by (simp add: votes_counted_once_def)
    with a af have "votes_counted_once g2"
      using add_failover_votes_counted_once by blast
    with idx have "distinct (requestingNodes (wdCurrentFailovers g2 ! i)) \<and>
        request_count (wdCurrentFailovers g2 ! i)
          = int (length (requestingNodes (wdCurrentFailovers g2 ! i)))"
      by (simp add: votes_counted_once_def list_all_length)
    with enough show "distinct (requestingNodes (wdCurrentFailovers g2 ! i))
                \<and> get_minimum_votes_to_resolve_consensus cfg g
                     \<le> int (length (requestingNodes (wdCurrentFailovers g2 ! i)))"
      by simp
  qed
  from af idx enough fl rm once show ?thesis by blast
qed

theorem C1_proceed_needs_votes_witness:
  "compute_failover_consensus ex_no_beacon ex_env ex_config NODE_DOWN_REQUEST [0] 0 (RemoteNode 0)
     (ex_pending 2) = (FAILOVER_RES_PROCEED, 0, ex_cluster 2\<lparr>nextCommandID := 2\<rparr>)
   \<and> failover_when_quorum_exists ex_config
   \<and> (0::8 word) AND REQ_DETAIL_CONFIRMED = 0
   \<and> failover_require_consensus ex_config
   \<and> \<not> allow_multiple_failover_requests_from_node ex_config
   \<and> votes_counted_once (ex_pending 2)
   \<and> get_minimum_votes_to_resolve_consensus ex_config (ex_pending 2) = 2
   \<and> map requestingNodes (wdCurrentFailovers (snd (snd (add_failover ex_env ex_config
        NODE_DOWN_REQUEST [0] (RemoteNode 0) 0
        (update_quorum_status ex_no_beacon ex_env ex_config (ex_pending 2))))))
      = [LocalNode, RemoteNode 0] # []"
proof -
  have h1: "compute_failover_consensus ex_no_beacon ex_env ex_config NODE_DOWN_REQUEST [0] 0
     (RemoteNode 0) (ex_pending 2) = (FAILOVER_RES_PROCEED, 0, ex_cluster 2\<lparr>nextCommandID := 2\<rparr>)"
    by (simp add: ex_defs consensus_defs)
  have h2: "failover_when_quorum_exists ex_config" by (simp add: ex_config_def)
  have h3: "(0::8 word) AND REQ_DETAIL_CONFIRMED = 0" by simp
  have h4: "failover_require_consensus ex_config" by (simp add: ex_config_def)
  have h5: "\<not> allow_multiple_failover_requests_from_node ex_config \<and> votes_counted_once (ex_pending 2)"
    by (simp add: ex_defs consensus_defs)
  have h6: "get_minimum_votes_to_resolve_consensus ex_config (ex_pending 2) = 2"
    by (simp add: ex_defs consensus_defs)
  have h7: "map requestingNodes (wdCurrentFailovers (snd (snd (add_failover ex_env ex_config
        NODE_DOWN_REQUEST [0] (RemoteNode 0) 0
        (update_quorum_status ex_no_beacon ex_env ex_config (ex_pending 2))))))
      = [LocalNode, RemoteNode 0] # []"
    by (simp add: ex_defs consensus_defs)
  show ?thesis
    using C1_proceed_needs_votes [OF h1 h2 h3 h4] h1 h2 h3 h4 h5 h6 h7
    by simp
qed

text \<open>
  C1, as stated, fails on the code. With \<open>failover_when_quorum_exists\<close> off a request proceeds
  although consensus is required, it is not flagged as confirmed and no proposal holds a single
  requesting node; and with \<open>allow_multiple_failover_requests_from_node\<close> on the second vote
  of the local node proceeds with one requesting node on the proposal where two votes are the
  minimum.
\<close>

theorem C1_proceeds_with_fewer_requestors:
  "failover_require_consensus (ex_config\<lparr>failover_when_quorum_exists := False\<rparr>)
   \<and> (0::8 word) AND REQ_DETAIL_CONFIRMED = 0
   \<and> compute_failover_consensus ex_no_beacon ex_env
        (ex_config\<lparr>failover_when_quorum_exists := False\<rparr>) NODE_DOWN_REQUEST [0] 0 LocalNode
        (ex_cluster 2) = (FAILOVER_RES_PROCEED, 0, ex_cluster 2)
   \<and> wdCurrentFailovers (ex_cluster 2) = []
   \<and> get_minimum_votes_to_resolve_consensus
        (ex_config\<lparr>failover_when_quorum_exists := False\<rparr>) (ex_cluster 2) = 2
   \<and> failover_require_consensus (ex_config\<lparr>allow_multiple_failover_requests_from_node := True\<rparr>)
   \<and> fst (compute_failover_consensus ex_no_beacon ex_env
        (ex_config\<lparr>allow_multiple_failover_requests_from_node := True\<rparr>) NODE_DOWN_REQUEST [0] 0
        LocalNode (ex_pending 2)) = FAILOVER_RES_PROCEED
   \<and> map requestingNodes (wdCurrentFailovers (snd (snd (add_failover ex_env
        (ex_config\<lparr>allow_multiple_failover_requests_from_node := True\<rparr>) NODE_DOWN_REQUEST [0]
        LocalNode 0 (ex_pending 2))))) = [LocalNode] # []
   \<and> get_minimum_votes_to_resolve_consensus
        (ex_config\<lparr>allow_multiple_failover_requests_from_node := True\<rparr>) (ex_pending 2) = 2"
  by (simp add: ex_defs consensus_defs)

subsection \<open>The trace only grows\<close>

lemma emit_out [simp]: "out (emit a g) = out g @ [a]"
  by (simp add: emit_def)

lemma emit_fields [simp]:
  "masterNode (emit a g) = masterNode g"
  "standby_nodes_count (emit a g) = standby_nodes_count g"
  "holding_vip (emit a g) = holding_vip g"
  "escalation_pid (emit a g) = escalation_pid g"
  "de_escalation_pid (emit a g) = de_escalation_pid g"
  "remoteNodes (emit a g) = remoteNodes g"
  by (simp_all add: emit_def)

lemma prefix_emit: "prefix (out g) (out (emit a g))"
  by simp

lemma prefix_send_message: "prefix (out g) (out (send_message w t i d g))"
  by (simp add: send_message_def)

lemma get_message_of_type_out: "get_message_of_type t r g = (m, g') \<Longrightarrow> out g' = out g"
  by (auto simp: get_message_of_type_def get_next_commandID_def Let_def
           split: if_splits option.splits)

lemma prefix_send_message_of_type: "prefix (out g) (out (send_message_of_type w t r g))"
proof -
  obtain m g' where e: "get_message_of_type t r g = (m, g')"
    by (cases "get_message_of_type t r g") auto
  have s: "send_message_of_type w t r g =
           (case m of Some (i, d) \<Rightarrow> send_message w t i d g' | None \<Rightarrow> g')"
    by (simp add: send_message_of_type_def e split: option.splits)
  show ?thesis
    unfolding s using get_message_of_type_out [OF e] prefix_send_message [of g']
    by (cases m) auto
qed

lemma send_cluster_command_frame [simp]:
  "wdCurrentFailovers (send_cluster_command w t n g) = wdCurrentFailovers g"
  "remoteNodeCount (send_cluster_command w t n g) = remoteNodeCount g"
  "localNode (send_cluster_command w t n g) = localNode g"
  "quorum_status (send_cluster_command w t n g) = quorum_status g"
proof -
  obtain m g' where e: "get_message_of_type t None g = (m, g')"
    by (cases "get_message_of_type t None g") auto
  note f = get_message_of_type_frame [OF e]
  have s: "send_cluster_command w t n g =
           (case m of Some (i, d) \<Rightarrow> emit (IssueClusterCommand w t i n) g' | None \<Rightarrow> g')"
    by (simp add: send_cluster_command_def e split: option.splits)
  show "wdCurrentFailovers (send_cluster_command w t n g) = wdCurrentFailovers g"
    "remoteNodeCount (send_cluster_command w t n g) = remoteNodeCount g"
    "localNode (send_cluster_command w t n g) = localNode g"
    "quorum_status (send_cluster_command w t n g) = quorum_status g"
    unfolding s using f by (cases m; force)+
qed

lemma prefix_send_cluster_command: "prefix (out g) (out (send_cluster_command w t n g))"
proof -
  obtain m g' where e: "get_message_of_type t None g = (m, g')"
    by (cases "get_message_of_type t None g") auto
  have s: "send_cluster_command w t n g =
           (case m of Some (i, d) \<Rightarrow> emit (IssueClusterCommand w t i n) g' | None \<Rightarrow> g')"
    by (simp add: send_cluster_command_def e split: option.splits)
  show ?thesis
    unfolding s using get_message_of_type_out [OF e] by (cases m) auto
qed

lemma set_timeout_frame [simp]:
  "out (set_timeout n g) = out g @ [SetTimeout n]"
  "wdCurrentFailovers (set_timeout n g) = wdCurrentFailovers g"
  "remoteNodeCount (set_timeout n g) = remoteNodeCount g"
  "localNode (set_timeout n g) = localNode g"
  "quorum_status (set_timeout n g) = quorum_status g"
  by (simp_all add: set_timeout_def)

lemma wd_child_signal_handler_out [simp]: "out (wd_child_signal_handler ps g) = out g"
  by (induction ps arbitrary: g) simp_all

lemma wait_for_de_escalation_exit_out:
  "\<exists>k. out (wait_for_de_escalation_exit n sig g) = out g @ replicate k (Sleep 1)"
proof (induction n arbitrary: sig g)
  case 0
  have "out g = out g @ replicate 0 (Sleep 1)" by simp
  then show ?case by (metis wait_for_de_escalation_exit.simps(1))
next
  case (Suc n)
  show ?case
  proof (cases "de_escalation_pid g > 0")
    case True
    let ?g = "emit (Sleep 1) (wd_child_signal_handler (case sig of [] \<Rightarrow> [] | p # _ \<Rightarrow> p) g)"
    from Suc.IH [of "tl sig" ?g] obtain k where
      "out (wait_for_de_escalation_exit n (tl sig) ?g) = out ?g @ replicate k (Sleep 1)" by blast
    then have "out (wait_for_de_escalation_exit (Suc n) sig g) = out g @ replicate (Suc k) (Sleep 1)"
      using True by simp
    then show ?thesis by blast
  next
    case False
    then have "out (wait_for_de_escalation_exit (Suc n) sig g) = out g @ replicate 0 (Sleep 1)"
      by simp
    then show ?thesis by blast
  qed
qed

lemma wait_for_escalation_exit_out:
  "\<exists>k. out (wait_for_escalation_exit n sig g) = out g @ replicate k (Sleep 1)"
proof (induction n arbitrary: sig g)
  case 0
  have "out g = out g @ replicate 0 (Sleep 1)" by simp
  then show ?case by (metis wait_for_escalation_exit.simps(1))
next
  case (Suc n)
  show ?case
  proof (cases "escalation_pid g > 0")
    case True
    let ?g = "emit (Sleep 1) (wd_child_signal_handler (case sig of [] \<Rightarrow> [] | p # _ \<Rightarrow> p) g)"
    from Suc.IH [of "tl sig" ?g] obtain k where
      "out (wait_for_escalation_exit n (tl sig) ?g) = out ?g @ replicate k (Sleep 1)" by blast
    then have "out (wait_for_escalation_exit (Suc n) sig g) = out g @ replicate (Suc k) (Sleep 1)"
      using True by simp
    then show ?thesis by blast
  next
    case False
    then have "out (wait_for_escalation_exit (Suc n) sig g) = out g @ replicate 0 (Sleep 1)"
      by simp
    then show ?thesis by blast
  qed
qed

lemma prefix_resign_from_escalated_node:
  "prefix (out g) (out (resign_from_escalated_node env g))"
proof (cases "escalated (localNode g)")
  case False
  then show ?thesis by (simp add: resign_from_escalated_node_def)
next
  case True
  obtain k where "out (wait_for_escalation_exit MAX_SECS_ESC_PROC_EXIT_WAIT (child_exits env) g)
                   = out g @ replicate k (Sleep 1)"
    using wait_for_escalation_exit_out by blast
  then show ?thesis
    using True by (simp add: resign_from_escalated_node_def Let_def)
qed

lemma resign_from_escalated_node_local [simp]:
  "state (localNode (resign_from_escalated_node env g)) = state (localNode g)"
  "wd_priority (localNode (resign_from_escalated_node env g)) = wd_priority (localNode g)"
  "escalated (localNode (resign_from_escalated_node env g)) = False"
  "current_state_time (localNode (resign_from_escalated_node env g)) = current_state_time (localNode g)"
  by (simp_all add: resign_from_escalated_node_def Let_def)

lemma prefix_state_changed_handler: "prefix (out g) (out (state_changed_handler cfg g))"
proof -
  have j: "prefix (out g) (out (set_timeout MAX_SECS_WAIT_FOR_REPLY_FROM_NODE
            (send_cluster_command None WD_REQ_INFO_MESSAGE 4
              (emit TryConnectingWithAllUnreachableNodes (set_cluster_master_node None g)))))"
  proof -
    have "out (set_cluster_master_node None g) = out g"
      by (simp add: set_cluster_master_node_def)
    then have "prefix (out g) (out (emit TryConnectingWithAllUnreachableNodes
                 (set_cluster_master_node None g)))" by simp
    also have "prefix \<dots> (out (send_cluster_command None WD_REQ_INFO_MESSAGE 4
              (emit TryConnectingWithAllUnreachableNodes (set_cluster_master_node None g))))"
      by (rule prefix_send_cluster_command)
    finally show ?thesis by simp
  qed
  have c: "\<And>t. prefix (out g) (out (set_timeout MAX_SECS_WAIT_FOR_REPLY_FROM_NODE
            (send_cluster_command None t 4 g)))"
  proof -
    fix t
    have "prefix (out g) (out (send_cluster_command None t 4 g))"
      by (rule prefix_send_cluster_command)
    then show "prefix (out g) (out (set_timeout MAX_SECS_WAIT_FOR_REPLY_FROM_NODE
            (send_cluster_command None t 4 g)))"
      by simp
  qed
  show ?thesis
    using j c by (cases "state (localNode g)") (simp_all add: state_changed_handler_def Let_def)
qed

lemma state_changed_handler_state [simp]:
  "state (localNode (state_changed_handler cfg g)) = state (localNode g)"
  "current_state_time (localNode (state_changed_handler cfg g)) = current_state_time (localNode g)"
  "escalated (localNode (state_changed_handler cfg g)) = escalated (localNode g)"
  by (cases "state (localNode g)";
      simp add: state_changed_handler_def Let_def set_cluster_master_node_def)+

lemma state_changed_handler_joining:
  "state (localNode g) = WD_JOINING \<Longrightarrow>
     localNode (state_changed_handler cfg g) = localNode g \<and>
     masterNode (state_changed_handler cfg g) = None \<and>
     wdCurrentFailovers (state_changed_handler cfg g) = wdCurrentFailovers g"
proof -
  assume s: "state (localNode g) = WD_JOINING"
  let ?g1 = "emit TryConnectingWithAllUnreachableNodes (set_cluster_master_node None g)"
  obtain m g' where e: "get_message_of_type WD_REQ_INFO_MESSAGE None ?g1 = (m, g')"
    by (cases "get_message_of_type WD_REQ_INFO_MESSAGE None ?g1") auto
  have mm: "masterNode g' = masterNode ?g1"
    using e by (auto simp: get_message_of_type_def get_next_commandID_def Let_def
                     split: if_splits option.splits)
  have sc: "send_cluster_command None WD_REQ_INFO_MESSAGE 4 ?g1 =
           (case m of Some (i, d) \<Rightarrow> emit (IssueClusterCommand None WD_REQ_INFO_MESSAGE i 4) g' | None \<Rightarrow> g')"
    by (simp add: send_cluster_command_def e split: option.splits)
  have "masterNode (send_cluster_command None WD_REQ_INFO_MESSAGE 4 ?g1) = None"
    unfolding sc using mm by (cases m) (auto simp: set_cluster_master_node_def)
  then show ?thesis
    using s by (simp add: state_changed_handler_def set_timeout_def set_cluster_master_node_def)
qed

subsection \<open>Changing the state\<close>

lemma set_state_same: "state (localNode g) = s \<Longrightarrow> set_state env cfg s g = g"
  by (simp add: set_state_def Let_def)

lemma set_state_state [simp]: "state (localNode (set_state env cfg s g)) = s"
  by (simp add: set_state_def Let_def clear_all_failovers_def clear_standby_nodes_list_def)

lemma prefix_set_state: "prefix (out g) (out (set_state env cfg s g))"
proof (cases "state (localNode g) = s")
  case True
  then show ?thesis by (simp add: set_state_same)
next
  case False
  let ?g2 = "g\<lparr>localNode := (localNode g)\<lparr>state := s, current_state_time := now env\<rparr>\<rparr>"
  let ?g3 = "if state (localNode g) = WD_COORDINATOR
             then clear_all_failovers (clear_standby_nodes_list (resign_from_escalated_node env ?g2))
             else ?g2"
  have e: "set_state env cfg s g
             = send_message_of_type None WD_INFO_MESSAGE None (state_changed_handler cfg ?g3)"
    using False by (simp add: set_state_def Let_def)
  have "prefix (out ?g2) (out (resign_from_escalated_node env ?g2))"
    by (rule prefix_resign_from_escalated_node)
  then have "prefix (out g) (out ?g3)"
    by (simp add: clear_all_failovers_def clear_standby_nodes_list_def)
  also have "prefix (out ?g3) (out (state_changed_handler cfg ?g3))"
    by (rule prefix_state_changed_handler)
  also have "prefix (out (state_changed_handler cfg ?g3))
               (out (send_message_of_type None WD_INFO_MESSAGE None (state_changed_handler cfg ?g3)))"
    by (rule prefix_send_message_of_type)
  finally show ?thesis unfolding e .
qed

lemma leave_coordinator_for_joining:
  assumes "state (localNode g) = WD_COORDINATOR"
  shows "state (localNode (set_state env cfg WD_JOINING g)) = WD_JOINING"
    and "wd_priority (localNode (set_state env cfg WD_JOINING g)) = wd_priority (localNode g)"
    and "current_state_time (localNode (set_state env cfg WD_JOINING g)) = now env"
    and "escalated (localNode (set_state env cfg WD_JOINING g)) = False"
    and "wdCurrentFailovers (set_state env cfg WD_JOINING g) = []"
    and "masterNode (set_state env cfg WD_JOINING g) = None"
proof -
  let ?g2 = "g\<lparr>localNode := (localNode g)\<lparr>state := WD_JOINING, current_state_time := now env\<rparr>\<rparr>"
  let ?g3 = "clear_all_failovers (clear_standby_nodes_list (resign_from_escalated_node env ?g2))"
  let ?g4 = "state_changed_handler cfg ?g3"
  have e: "set_state env cfg WD_JOINING g = send_message_of_type None WD_INFO_MESSAGE None ?g4"
    using assms by (simp add: set_state_def Let_def)
  have s3: "state (localNode ?g3) = WD_JOINING"
    by (simp add: clear_all_failovers_def clear_standby_nodes_list_def)
  note j = state_changed_handler_joining [OF s3, of cfg]
  have l3: "wd_priority (localNode ?g3) = wd_priority (localNode g)"
       "current_state_time (localNode ?g3) = now env"
       "escalated (localNode ?g3) = False"
       "wdCurrentFailovers ?g3 = []"
    by (simp_all add: clear_all_failovers_def clear_standby_nodes_list_def)
  obtain m g' where gm: "get_message_of_type WD_INFO_MESSAGE None ?g4 = (m, g')"
    by (cases "get_message_of_type WD_INFO_MESSAGE None ?g4") auto
  have mm: "masterNode g' = masterNode ?g4"
    using gm by (auto simp: get_message_of_type_def get_next_commandID_def Let_def
                      split: if_splits option.splits)
  have sm: "send_message_of_type None WD_INFO_MESSAGE None ?g4 =
           (case m of Some (i, d) \<Rightarrow> send_message None WD_INFO_MESSAGE i d g' | None \<Rightarrow> g')"
    by (simp add: send_message_of_type_def gm split: option.splits)
  show "state (localNode (set_state env cfg WD_JOINING g)) = WD_JOINING" by simp
  show "wd_priority (localNode (set_state env cfg WD_JOINING g)) = wd_priority (localNode g)"
    unfolding e using j l3 by simp
  show "current_state_time (localNode (set_state env cfg WD_JOINING g)) = now env"
    unfolding e using j l3 by simp
  show "escalated (localNode (set_state env cfg WD_JOINING g)) = False"
    unfolding e using j l3 by simp
  show "wdCurrentFailovers (set_state env cfg WD_JOINING g) = []"
    unfolding e using j l3 by simp
  show "masterNode (set_state env cfg WD_JOINING g) = None"
    unfolding e sm using j mm by (cases m) (auto simp: send_message_def emit_def)
qed

lemma stand_for_coordinator_to_voting:
  assumes "state (localNode g) = WD_STAND_FOR_COORDINATOR"
  shows "set_state env cfg WD_PARTICIPATE_IN_ELECTION g =
           g\<lparr>localNode := (localNode g)\<lparr>state := WD_PARTICIPATE_IN_ELECTION,
                                        current_state_time := now env\<rparr>,
             nextCommandID := nextCommandID g + 1,
             out := out g @ [SetTimeout MAX_SECS_WAIT_FOR_REPLY_FROM_NODE,
                             SendMessage None WD_INFO_MESSAGE (nextCommandID g + 1) NodeInfoJson]\<rparr>"
  using assms
  by (simp add: set_state_def Let_def state_changed_handler_def set_timeout_def emit_def
                send_message_of_type_def get_message_of_type_def get_next_commandID_def
                send_message_def)

lemmas send_defs = emit_def send_message_def reply_with_message_def reply_with_minimal_message_def
  send_cluster_service_message_def get_next_commandID_def get_message_of_type_def
  send_message_of_type_def send_cluster_command_def set_timeout_def minimum_message_types_def

lemmas state_defs = set_state_def state_changed_handler_def set_cluster_master_node_def
  clear_standby_nodes_list_def clear_all_failovers_def resign_from_escalated_node_def
  start_escalated_node_def


lemmas ex2_defs = ex_standing_def ex_packet_def ex_command_def ex_parse_beacon_def ex_escalated_def
  ex_beacon_def

lemmas split_defs = watchdog_state_machine_coordinator_def beacon_message_received_from_node_def
  handle_split_brain_def I_am_master_and_cluser_in_split_brain_def spec_remote_is_worthier_def


subsection \<open>The election\<close>

lemma spec_lex_ge_election:
  "spec_lex_ge (spec_election_key a) (spec_election_key b) \<longleftrightarrow>
     wd_priority a > wd_priority b \<or>
     (wd_priority a = wd_priority b \<and> startup_time a \<le> startup_time b)"
  by (simp add: spec_lex_ge_def spec_election_key_def)

lemma standForCord_rejects:
  assumes "pkt_type pkt = WD_STAND_FOR_COORDINATOR_MESSAGE"
      and "spec_lex_ge (spec_election_key (localNode g)) (spec_election_key (remoteNodes g wdNode))"
  shows "watchdog_state_machine_standForCord env cfg (PacketRcv wdNode pkt) g
           = emit (SendMessage (Some (RemoteNode wdNode)) WD_REJECT_MESSAGE (command_id pkt) NoData) g"
  using assms
  by (auto simp: spec_lex_ge_election watchdog_state_machine_standForCord_def
        reply_with_minimal_message_def reply_with_message_def send_message_def)

lemma standForCord_accepts:
  assumes "state (localNode g) = WD_STAND_FOR_COORDINATOR"
      and "pkt_type pkt = WD_STAND_FOR_COORDINATOR_MESSAGE"
      and "\<not> spec_lex_ge (spec_election_key (localNode g)) (spec_election_key (remoteNodes g wdNode))"
  shows "watchdog_state_machine_standForCord env cfg (PacketRcv wdNode pkt) g
           = g\<lparr>localNode := (localNode g)\<lparr>state := WD_PARTICIPATE_IN_ELECTION,
                                          current_state_time := now env\<rparr>,
               nextCommandID := nextCommandID g + 1,
               out := out g @
                 [SendMessage (Some (RemoteNode wdNode)) WD_ACCEPT_MESSAGE (command_id pkt) NoData,
                  SetTimeout MAX_SECS_WAIT_FOR_REPLY_FROM_NODE,
                  SendMessage None WD_INFO_MESSAGE (nextCommandID g + 1) NodeInfoJson]\<rparr>"
proof -
  let ?g1 = "emit (SendMessage (Some (RemoteNode wdNode)) WD_ACCEPT_MESSAGE (command_id pkt) NoData) g"
  have r: "reply_with_minimal_message (Some (RemoteNode wdNode)) WD_ACCEPT_MESSAGE (Some pkt) g = ?g1"
    by (simp add: reply_with_minimal_message_def reply_with_message_def send_message_def)
  have s: "state (localNode ?g1) = WD_STAND_FOR_COORDINATOR" using assms(1) by simp
  have e: "watchdog_state_machine_standForCord env cfg (PacketRcv wdNode pkt) g
             = set_state env cfg WD_PARTICIPATE_IN_ELECTION ?g1"
    using assms(2,3) unfolding spec_lex_ge_election
    by (auto simp: watchdog_state_machine_standForCord_def r)
  show ?thesis
    unfolding e stand_for_coordinator_to_voting [OF s]
    by (simp add: emit_def)
qed

lemma standForCord_elected:
  assumes "pkt_type (commandPacket c) = WD_STAND_FOR_COORDINATOR_MESSAGE"
      and "commandStatus c = COMMAND_FINISHED_ALL_REPLIED"
  shows "state (localNode (watchdog_state_machine_standForCord env cfg (CommandFinished w p c) g))
           = WD_COORDINATOR"
  using assms by (simp add: watchdog_state_machine_standForCord_def)

text \<open>
  C4. A node standing for coordinator that receives \<open>StandForCoordinator\<close> from a peer replies
  \<open>Reject\<close>, and stays as it is, when its own priority is higher or the priorities are equal
  and its own startup time is older or equal (the lexicographic comparison of priority and
  minus startup time); otherwise it replies \<open>Accept\<close> and becomes a participant of the
  election. So of two standing nodes A and B of equal priority, A being the older one, A
  rejects B and keeps standing, B accepts A and steps back, and A becomes coordinator when its
  own request has been answered by all. Startup times are compared in whole seconds.
\<close>

theorem C4_stand_for_coordinator_election:
  assumes "state (localNode g) = WD_STAND_FOR_COORDINATOR"
      and "pkt_type pkt = WD_STAND_FOR_COORDINATOR_MESSAGE"
  shows "(spec_lex_ge (spec_election_key (localNode g)) (spec_election_key (remoteNodes g b))
            \<longleftrightarrow> wd_priority (localNode g) > wd_priority (remoteNodes g b) \<or>
                (wd_priority (localNode g) = wd_priority (remoteNodes g b) \<and>
                 startup_time (localNode g) \<le> startup_time (remoteNodes g b)))
       \<and> (spec_lex_ge (spec_election_key (localNode g)) (spec_election_key (remoteNodes g b))
            \<longrightarrow> watchdog_state_machine_standForCord env cfg (PacketRcv b pkt) g
                  = emit (SendMessage (Some (RemoteNode b)) WD_REJECT_MESSAGE (command_id pkt) NoData) g)
       \<and> (\<not> spec_lex_ge (spec_election_key (localNode g)) (spec_election_key (remoteNodes g b))
            \<longrightarrow> watchdog_state_machine_standForCord env cfg (PacketRcv b pkt) g
                  = g\<lparr>localNode := (localNode g)\<lparr>state := WD_PARTICIPATE_IN_ELECTION,
                                                 current_state_time := now env\<rparr>,
                      nextCommandID := nextCommandID g + 1,
                      out := out g @
                        [SendMessage (Some (RemoteNode b)) WD_ACCEPT_MESSAGE (command_id pkt) NoData,
                         SetTimeout MAX_SECS_WAIT_FOR_REPLY_FROM_NODE,
                         SendMessage None WD_INFO_MESSAGE (nextCommandID g + 1) NodeInfoJson]\<rparr>)
       \<and> (state (localNode gB) = WD_STAND_FOR_COORDINATOR
          \<and> pkt_type pktB = WD_STAND_FOR_COORDINATOR_MESSAGE
          \<and> wd_priority (remoteNodes g b) = wd_priority (localNode gB)
          \<and> startup_time (remoteNodes g b) = startup_time (localNode gB)
          \<and> wd_priority (remoteNodes gB a) = wd_priority (localNode g)
          \<and> startup_time (remoteNodes gB a) = startup_time (localNode g)
          \<and> wd_priority (localNode g) = wd_priority (localNode gB)
          \<and> startup_time (localNode g) < startup_time (localNode gB)
          \<and> pkt_type (commandPacket c) = WD_STAND_FOR_COORDINATOR_MESSAGE
          \<and> commandStatus c = COMMAND_FINISHED_ALL_REPLIED
            \<longrightarrow> watchdog_state_machine_standForCord env cfg (PacketRcv b pkt) g
                  = emit (SendMessage (Some (RemoteNode b)) WD_REJECT_MESSAGE (command_id pkt) NoData) g
              \<and> state (localNode (watchdog_state_machine_standForCord env cfg (PacketRcv b pkt) g))
                  = WD_STAND_FOR_COORDINATOR
              \<and> state (localNode (watchdog_state_machine_standForCord envB cfgB (PacketRcv a pktB) gB))
                  = WD_PARTICIPATE_IN_ELECTION
              \<and> SendMessage (Some (RemoteNode a)) WD_ACCEPT_MESSAGE (command_id pktB) NoData
                  \<in> set (out (watchdog_state_machine_standForCord envB cfgB (PacketRcv a pktB) gB))
              \<and> state (localNode (watchdog_state_machine_standForCord env cfg
                         (CommandFinished (Some b) (Some acc) c)
                         (watchdog_state_machine_standForCord env cfg (PacketRcv b pkt) g)))
                  = WD_COORDINATOR)"
proof -
  have one: "spec_lex_ge (spec_election_key (localNode g)) (spec_election_key (remoteNodes g b))
            \<longleftrightarrow> wd_priority (localNode g) > wd_priority (remoteNodes g b) \<or>
                (wd_priority (localNode g) = wd_priority (remoteNodes g b) \<and>
                 startup_time (localNode g) \<le> startup_time (remoteNodes g b))"
    by (rule spec_lex_ge_election)
  have two: "spec_lex_ge (spec_election_key (localNode g)) (spec_election_key (remoteNodes g b))
            \<longrightarrow> watchdog_state_machine_standForCord env cfg (PacketRcv b pkt) g
                  = emit (SendMessage (Some (RemoteNode b)) WD_REJECT_MESSAGE (command_id pkt) NoData) g"
    using standForCord_rejects [OF assms(2)] by blast
  have three: "\<not> spec_lex_ge (spec_election_key (localNode g)) (spec_election_key (remoteNodes g b))
            \<longrightarrow> watchdog_state_machine_standForCord env cfg (PacketRcv b pkt) g
                  = g\<lparr>localNode := (localNode g)\<lparr>state := WD_PARTICIPATE_IN_ELECTION,
                                                 current_state_time := now env\<rparr>,
                      nextCommandID := nextCommandID g + 1,
                      out := out g @
                        [SendMessage (Some (RemoteNode b)) WD_ACCEPT_MESSAGE (command_id pkt) NoData,
                         SetTimeout MAX_SECS_WAIT_FOR_REPLY_FROM_NODE,
                         SendMessage None WD_INFO_MESSAGE (nextCommandID g + 1) NodeInfoJson]\<rparr>"
    using standForCord_accepts [OF assms(1,2)] by blast
  have four: "state (localNode gB) = WD_STAND_FOR_COORDINATOR
          \<and> pkt_type pktB = WD_STAND_FOR_COORDINATOR_MESSAGE
          \<and> wd_priority (remoteNodes g b) = wd_priority (localNode gB)
          \<and> startup_time (remoteNodes g b) = startup_time (localNode gB)
          \<and> wd_priority (remoteNodes gB a) = wd_priority (localNode g)
          \<and> startup_time (remoteNodes gB a) = startup_time (localNode g)
          \<and> wd_priority (localNode g) = wd_priority (localNode gB)
          \<and> startup_time (localNode g) < startup_time (localNode gB)
          \<and> pkt_type (commandPacket c) = WD_STAND_FOR_COORDINATOR_MESSAGE
          \<and> commandStatus c = COMMAND_FINISHED_ALL_REPLIED
            \<longrightarrow> watchdog_state_machine_standForCord env cfg (PacketRcv b pkt) g
                  = emit (SendMessage (Some (RemoteNode b)) WD_REJECT_MESSAGE (command_id pkt) NoData) g
              \<and> state (localNode (watchdog_state_machine_standForCord env cfg (PacketRcv b pkt) g))
                  = WD_STAND_FOR_COORDINATOR
              \<and> state (localNode (watchdog_state_machine_standForCord envB cfgB (PacketRcv a pktB) gB))
                  = WD_PARTICIPATE_IN_ELECTION
              \<and> SendMessage (Some (RemoteNode a)) WD_ACCEPT_MESSAGE (command_id pktB) NoData
                  \<in> set (out (watchdog_state_machine_standForCord envB cfgB (PacketRcv a pktB) gB))
              \<and> state (localNode (watchdog_state_machine_standForCord env cfg
                         (CommandFinished (Some b) (Some acc) c)
                         (watchdog_state_machine_standForCord env cfg (PacketRcv b pkt) g)))
                  = WD_COORDINATOR"
  proof (intro impI, elim conjE)
    assume sB: "state (localNode gB) = WD_STAND_FOR_COORDINATOR"
       and tB: "pkt_type pktB = WD_STAND_FOR_COORDINATOR_MESSAGE"
       and v: "wd_priority (remoteNodes g b) = wd_priority (localNode gB)"
              "startup_time (remoteNodes g b) = startup_time (localNode gB)"
              "wd_priority (remoteNodes gB a) = wd_priority (localNode g)"
              "startup_time (remoteNodes gB a) = startup_time (localNode g)"
              "wd_priority (localNode g) = wd_priority (localNode gB)"
              "startup_time (localNode g) < startup_time (localNode gB)"
       and c: "pkt_type (commandPacket c) = WD_STAND_FOR_COORDINATOR_MESSAGE"
              "commandStatus c = COMMAND_FINISHED_ALL_REPLIED"
    have ga: "spec_lex_ge (spec_election_key (localNode g)) (spec_election_key (remoteNodes g b))"
      using v by (simp add: spec_lex_ge_election)
    have gb: "\<not> spec_lex_ge (spec_election_key (localNode gB)) (spec_election_key (remoteNodes gB a))"
      using v by (simp add: spec_lex_ge_election)
    note ra = standForCord_rejects [OF assms(2) ga, of env cfg]
    note ab = standForCord_accepts [OF sB tB gb, of envB cfgB]
    show "watchdog_state_machine_standForCord env cfg (PacketRcv b pkt) g
                  = emit (SendMessage (Some (RemoteNode b)) WD_REJECT_MESSAGE (command_id pkt) NoData) g
              \<and> state (localNode (watchdog_state_machine_standForCord env cfg (PacketRcv b pkt) g))
                  = WD_STAND_FOR_COORDINATOR
              \<and> state (localNode (watchdog_state_machine_standForCord envB cfgB (PacketRcv a pktB) gB))
                  = WD_PARTICIPATE_IN_ELECTION
              \<and> SendMessage (Some (RemoteNode a)) WD_ACCEPT_MESSAGE (command_id pktB) NoData
                  \<in> set (out (watchdog_state_machine_standForCord envB cfgB (PacketRcv a pktB) gB))
              \<and> state (localNode (watchdog_state_machine_standForCord env cfg
                         (CommandFinished (Some b) (Some acc) c)
                         (watchdog_state_machine_standForCord env cfg (PacketRcv b pkt) g)))
                  = WD_COORDINATOR"
      using standForCord_elected [OF c] assms(1)
      unfolding ra ab by simp
  qed
  from one two three four show ?thesis by blast
qed

theorem C4_stand_for_coordinator_election_witness:
  "state (localNode (ex_standing 10 20)) = WD_STAND_FOR_COORDINATOR
   \<and> state (localNode (ex_standing 20 10)) = WD_STAND_FOR_COORDINATOR
   \<and> pkt_type (ex_packet WD_STAND_FOR_COORDINATOR_MESSAGE []) = WD_STAND_FOR_COORDINATOR_MESSAGE
   \<and> wd_priority (localNode (ex_standing 10 20)) = wd_priority (localNode (ex_standing 20 10))
   \<and> startup_time (localNode (ex_standing 10 20)) < startup_time (localNode (ex_standing 20 10))
   \<and> spec_lex_ge (spec_election_key (localNode (ex_standing 10 20)))
                  (spec_election_key (remoteNodes (ex_standing 10 20) 0))
   \<and> \<not> spec_lex_ge (spec_election_key (localNode (ex_standing 20 10)))
                    (spec_election_key (remoteNodes (ex_standing 20 10) 0))
   \<and> watchdog_state_machine_standForCord ex_env ex_config
        (PacketRcv 0 (ex_packet WD_STAND_FOR_COORDINATOR_MESSAGE [])) (ex_standing 10 20)
      = (ex_standing 10 20)\<lparr>out := [SendMessage (Some (RemoteNode 0)) WD_REJECT_MESSAGE 7 NoData]\<rparr>
   \<and> state (localNode (watchdog_state_machine_standForCord ex_env ex_config
        (PacketRcv 0 (ex_packet WD_STAND_FOR_COORDINATOR_MESSAGE [])) (ex_standing 20 10)))
      = WD_PARTICIPATE_IN_ELECTION
   \<and> out (watchdog_state_machine_standForCord ex_env ex_config
        (PacketRcv 0 (ex_packet WD_STAND_FOR_COORDINATOR_MESSAGE [])) (ex_standing 20 10))
      = [SendMessage (Some (RemoteNode 0)) WD_ACCEPT_MESSAGE 7 NoData, SetTimeout 5,
         SendMessage None WD_INFO_MESSAGE 2 NodeInfoJson]
   \<and> state (localNode (watchdog_state_machine_standForCord ex_env ex_config
        (CommandFinished (Some 0) (Some (ex_packet WD_ACCEPT_MESSAGE []))
           (ex_command WD_STAND_FOR_COORDINATOR_MESSAGE COMMAND_FINISHED_ALL_REPLIED))
        (watchdog_state_machine_standForCord ex_env ex_config
           (PacketRcv 0 (ex_packet WD_STAND_FOR_COORDINATOR_MESSAGE [])) (ex_standing 10 20))))
      = WD_COORDINATOR"
proof -
  have a: "state (localNode (ex_standing 10 20)) = WD_STAND_FOR_COORDINATOR"
    by (simp add: ex_defs ex_standing_def)
  have b: "state (localNode (ex_standing 20 10)) = WD_STAND_FOR_COORDINATOR"
    by (simp add: ex_defs ex_standing_def)
  have p: "pkt_type (ex_packet WD_STAND_FOR_COORDINATOR_MESSAGE []) = WD_STAND_FOR_COORDINATOR_MESSAGE"
    by (simp add: ex_packet_def)
  note A = C4_stand_for_coordinator_election [OF a p,
      where b = 0 and env = ex_env and cfg = ex_config and gB = "ex_standing 20 10"
        and pktB = "ex_packet WD_STAND_FOR_COORDINATOR_MESSAGE []" and a = 0
        and envB = ex_env and cfgB = ex_config
        and c = "ex_command WD_STAND_FOR_COORDINATOR_MESSAGE COMMAND_FINISHED_ALL_REPLIED"
        and acc = "ex_packet WD_ACCEPT_MESSAGE []"]
  note B = C4_stand_for_coordinator_election [OF b p,
      where b = 0 and env = ex_env and cfg = ex_config and gB = "ex_standing 10 20"
        and pktB = "ex_packet WD_STAND_FOR_COORDINATOR_MESSAGE []" and a = 0
        and envB = ex_env and cfgB = ex_config
        and c = "ex_command WD_STAND_FOR_COORDINATOR_MESSAGE COMMAND_FINISHED_ALL_REPLIED"
        and acc = "ex_packet WD_ACCEPT_MESSAGE []"]
  show ?thesis
    using A B
    by (simp add: ex_defs ex_standing_def ex_packet_def ex_command_def send_defs state_defs
                  watchdog_state_machine_standForCord_def
                  spec_lex_ge_def spec_election_key_def)
qed


subsection \<open>Split brain\<close>

lemma split_brain_verdict:
  assumes "state (localNode g) = WD_COORDINATOR"
      and "state (remoteNodes g w) = WD_COORDINATOR"
      and "current_state_time (remoteNodes g w) \<noteq> 0"
  shows "I_am_master_and_cluser_in_split_brain g w =
           (if spec_remote_is_worthier
                 (escalated (localNode g)) (quorum_status g) (standby_nodes_count g)
                 (current_state_time (localNode g))
                 (escalated (remoteNodes g w)) (node_quorum_status (remoteNodes g w))
                 (node_standby_nodes_count (remoteNodes g w))
                 (current_state_time (remoteNodes g w))
            then - 1 else 1)"
  using assms
  by (simp add: I_am_master_and_cluser_in_split_brain_def spec_remote_is_worthier_def Let_def)

lemma split_brain_undecided:
  assumes "state (remoteNodes g w) \<noteq> WD_COORDINATOR \<or> current_state_time (remoteNodes g w) = 0"
  shows "I_am_master_and_cluser_in_split_brain g w = 0"
  using assms by (auto simp: I_am_master_and_cluser_in_split_brain_def Let_def)

lemma send_cluster_service_message_remote:
  "w \<noteq> Some LocalNode \<Longrightarrow>
   send_cluster_service_message w (Some pkt) m g
     = emit (SendMessage w WD_CLUSTER_SERVICE_MESSAGE (command_id pkt) (ServiceCode m)) g"
  by (simp add: send_cluster_service_message_def reply_with_message_def send_message_def)

lemma step_down:
  assumes "state (localNode g) = WD_COORDINATOR"
  shows "state (localNode (set_state env cfg WD_JOINING (emit a g))) = WD_JOINING
       \<and> prefix (out g @ [a]) (out (set_state env cfg WD_JOINING (emit a g)))"
  using prefix_set_state [of "emit a g" env cfg WD_JOINING] by simp

lemma beacon_received:
  assumes "pkt_data pkt = Some d" and "0 < pkt_len pkt" and "parse d = Some b"
  shows "beacon_message_received_from_node parse env w pkt g =
           (True,
            g\<lparr>remoteNodes := (remoteNodes g)
                (w := (remoteNodes g w)
                   \<lparr>state := beacon_state b,
                    startup_time := now env - seconds_since_node_startup b,
                    current_state_time := now env - seconds_since_current_state b,
                    node_quorum_status := beacon_quorum_status b,
                    node_standby_nodes_count := beacon_standby_nodes_count b,
                    escalated := beacon_escalated b\<rparr>)\<rparr>)"
  using assms by (simp add: beacon_message_received_from_node_def)

lemma beacon_not_received:
  assumes "pkt_data pkt = None \<or> pkt_len pkt \<le> 0 \<or> (pkt_data pkt = Some d \<and> parse d = None)"
  shows "beacon_message_received_from_node parse env w pkt g = (False, g)"
  using assms by (auto simp: beacon_message_received_from_node_def split: option.splits)

text \<open>
  C3. A coordinator receives the beacon \<open>IAmCoordinator\<close> of a peer. When the beacon parses,
  names the peer as coordinator and carries the time of its last state change, the four
  criteria are applied in the order of the specification (a tie on all four keeps the local
  node): if the remote side is the worthier one the node broadcasts \<open>IamNotTrueMaster\<close> and
  becomes joining; otherwise it sends the peer \<open>IamTrueMaster\<close>, sends nothing else and stays
  coordinator. When no decision is possible (no payload, a payload that does not parse, a peer
  that does not claim to be coordinator, no time of the last state change) it sends the peer
  \<open>NeedsElection\<close> and becomes joining.
\<close>

theorem C3_split_brain_resolution:
  assumes "state (localNode g) = WD_COORDINATOR"
      and "pkt_type pkt = WD_IAM_COORDINATOR_MESSAGE"
      and "g' = watchdog_state_machine_coordinator parse env cfg (PacketRcv w pkt) g"
  shows "(pkt_data pkt = Some d \<and> 0 < pkt_len pkt \<and> parse d = Some b
          \<and> beacon_state b = WD_COORDINATOR \<and> now env - seconds_since_current_state b \<noteq> 0
            \<longrightarrow> (if spec_remote_is_worthier
                        (escalated (localNode g)) (quorum_status g) (standby_nodes_count g)
                        (current_state_time (localNode g))
                        (beacon_escalated b) (beacon_quorum_status b)
                        (beacon_standby_nodes_count b)
                        (now env - seconds_since_current_state b)
                  then state (localNode g') = WD_JOINING
                     \<and> prefix (out g @ [SendMessage None WD_CLUSTER_SERVICE_MESSAGE (command_id pkt)
                                          (ServiceCode CLUSTER_IAM_NOT_TRUE_MASTER)]) (out g')
                  else state (localNode g') = WD_COORDINATOR
                     \<and> out g' = out g @ [SendMessage (Some (RemoteNode w)) WD_CLUSTER_SERVICE_MESSAGE
                                           (command_id pkt) (ServiceCode CLUSTER_IAM_TRUE_MASTER)]))
       \<and> (pkt_data pkt = None \<or> pkt_len pkt \<le> 0
          \<or> (pkt_data pkt = Some d
              \<and> (parse d = None
                  \<or> (parse d = Some b
                      \<and> (beacon_state b \<noteq> WD_COORDINATOR
                          \<or> now env - seconds_since_current_state b = 0))))
            \<longrightarrow> state (localNode g') = WD_JOINING
              \<and> prefix (out g @ [SendMessage (Some (RemoteNode w)) WD_CLUSTER_SERVICE_MESSAGE
                                   (command_id pkt) (ServiceCode CLUSTER_NEEDS_ELECTION)]) (out g'))"
proof -
  let ?r = "(remoteNodes g w)
                   \<lparr>state := beacon_state b,
                    startup_time := now env - seconds_since_node_startup b,
                    current_state_time := now env - seconds_since_current_state b,
                    node_quorum_status := beacon_quorum_status b,
                    node_standby_nodes_count := beacon_standby_nodes_count b,
                    escalated := beacon_escalated b\<rparr>"
  let ?g1 = "g\<lparr>remoteNodes := (remoteNodes g)(w := ?r)\<rparr>"
  let ?worthier = "spec_remote_is_worthier
                        (escalated (localNode g)) (quorum_status g) (standby_nodes_count g)
                        (current_state_time (localNode g))
                        (beacon_escalated b) (beacon_quorum_status b)
                        (beacon_standby_nodes_count b)
                        (now env - seconds_since_current_state b)"
  have h: "\<And>g0. beacon_message_received_from_node parse env w pkt g = (True, g0) \<Longrightarrow>
             g' = handle_split_brain env cfg w pkt g0"
    using assms(2,3) by (simp add: watchdog_state_machine_coordinator_def)
  have n: "beacon_message_received_from_node parse env w pkt g = (False, g) \<Longrightarrow>
             g' = set_state env cfg WD_JOINING
                    (emit (SendMessage (Some (RemoteNode w)) WD_CLUSTER_SERVICE_MESSAGE
                             (command_id pkt) (ServiceCode CLUSTER_NEEDS_ELECTION)) g)"
    using assms(2,3)
    by (simp add: watchdog_state_machine_coordinator_def send_cluster_service_message_remote)
  have s1: "state (localNode ?g1) = WD_COORDINATOR" using assms(1) by simp
  have decided: "pkt_data pkt = Some d \<and> 0 < pkt_len pkt \<and> parse d = Some b
          \<and> beacon_state b = WD_COORDINATOR \<and> now env - seconds_since_current_state b \<noteq> 0
            \<longrightarrow> (if ?worthier
                  then state (localNode g') = WD_JOINING
                     \<and> prefix (out g @ [SendMessage None WD_CLUSTER_SERVICE_MESSAGE (command_id pkt)
                                          (ServiceCode CLUSTER_IAM_NOT_TRUE_MASTER)]) (out g')
                  else state (localNode g') = WD_COORDINATOR
                     \<and> out g' = out g @ [SendMessage (Some (RemoteNode w)) WD_CLUSTER_SERVICE_MESSAGE
                                           (command_id pkt) (ServiceCode CLUSTER_IAM_TRUE_MASTER)])"
  proof (intro impI, elim conjE)
    assume a: "pkt_data pkt = Some d" "0 < pkt_len pkt" "parse d = Some b"
       and c: "beacon_state b = WD_COORDINATOR" "now env - seconds_since_current_state b \<noteq> 0"
    have g': "g' = handle_split_brain env cfg w pkt ?g1"
      using h [OF beacon_received [where parse = parse and pkt = pkt and d = d and b = b, OF a]] .
    have v: "I_am_master_and_cluser_in_split_brain ?g1 w = (if ?worthier then - 1 else 1)"
      using split_brain_verdict [of ?g1 w] s1 c by simp
    show "if ?worthier
          then state (localNode g') = WD_JOINING
             \<and> prefix (out g @ [SendMessage None WD_CLUSTER_SERVICE_MESSAGE (command_id pkt)
                                          (ServiceCode CLUSTER_IAM_NOT_TRUE_MASTER)]) (out g')
          else state (localNode g') = WD_COORDINATOR
             \<and> out g' = out g @ [SendMessage (Some (RemoteNode w)) WD_CLUSTER_SERVICE_MESSAGE
                                           (command_id pkt) (ServiceCode CLUSTER_IAM_TRUE_MASTER)]"
    proof (cases ?worthier)
      case True
      then have "g' = set_state env cfg WD_JOINING
                    (emit (SendMessage None WD_CLUSTER_SERVICE_MESSAGE
                             (command_id pkt) (ServiceCode CLUSTER_IAM_NOT_TRUE_MASTER)) ?g1)"
        unfolding g' using v
        by (simp add: handle_split_brain_def Let_def send_cluster_service_message_remote)
      then show ?thesis
        using True step_down [OF s1, of env cfg] by simp
    next
      case False
      then have "g' = emit (SendMessage (Some (RemoteNode w)) WD_CLUSTER_SERVICE_MESSAGE
                             (command_id pkt) (ServiceCode CLUSTER_IAM_TRUE_MASTER)) ?g1"
        unfolding g' using v
        by (simp add: handle_split_brain_def Let_def send_cluster_service_message_remote)
      then show ?thesis
        using False assms(1) by simp
    qed
  qed
  have undecided: "pkt_data pkt = None \<or> pkt_len pkt \<le> 0
          \<or> (pkt_data pkt = Some d
              \<and> (parse d = None
                  \<or> (parse d = Some b
                      \<and> (beacon_state b \<noteq> WD_COORDINATOR
                          \<or> now env - seconds_since_current_state b = 0))))
            \<longrightarrow> state (localNode g') = WD_JOINING
              \<and> prefix (out g @ [SendMessage (Some (RemoteNode w)) WD_CLUSTER_SERVICE_MESSAGE
                                   (command_id pkt) (ServiceCode CLUSTER_NEEDS_ELECTION)]) (out g')"
  proof
    assume u: "pkt_data pkt = None \<or> pkt_len pkt \<le> 0
          \<or> (pkt_data pkt = Some d
              \<and> (parse d = None
                  \<or> (parse d = Some b
                      \<and> (beacon_state b \<noteq> WD_COORDINATOR
                          \<or> now env - seconds_since_current_state b = 0))))"
    show "state (localNode g') = WD_JOINING
              \<and> prefix (out g @ [SendMessage (Some (RemoteNode w)) WD_CLUSTER_SERVICE_MESSAGE
                                   (command_id pkt) (ServiceCode CLUSTER_NEEDS_ELECTION)]) (out g')"
    proof (cases "pkt_data pkt = None \<or> pkt_len pkt \<le> 0 \<or> (pkt_data pkt = Some d \<and> parse d = None)")
      case True
      have "g' = set_state env cfg WD_JOINING
                    (emit (SendMessage (Some (RemoteNode w)) WD_CLUSTER_SERVICE_MESSAGE
                             (command_id pkt) (ServiceCode CLUSTER_NEEDS_ELECTION)) g)"
        using n [OF beacon_not_received [where parse = parse and pkt = pkt and d = d, OF True]] .
      then show ?thesis using step_down [OF assms(1), of env cfg] by simp
    next
      case False
      with u have a: "pkt_data pkt = Some d" "0 < pkt_len pkt" "parse d = Some b"
        and c: "beacon_state b \<noteq> WD_COORDINATOR \<or> now env - seconds_since_current_state b = 0"
        by auto
      have g': "g' = handle_split_brain env cfg w pkt ?g1"
        using h [OF beacon_received [where parse = parse and pkt = pkt and d = d and b = b, OF a]] .
      have "I_am_master_and_cluser_in_split_brain ?g1 w = 0"
        using split_brain_undecided [of ?g1 w] c by simp
      then have "g' = set_state env cfg WD_JOINING
                    (emit (SendMessage (Some (RemoteNode w)) WD_CLUSTER_SERVICE_MESSAGE
                             (command_id pkt) (ServiceCode CLUSTER_NEEDS_ELECTION)) ?g1)"
        unfolding g'
        by (simp add: handle_split_brain_def Let_def send_cluster_service_message_remote)
      then show ?thesis using step_down [OF s1, of env cfg] by simp
    qed
  qed
  from decided undecided show ?thesis by blast
qed

theorem C3_split_brain_resolution_witness:
  "state (localNode (ex_cluster 0)) = WD_COORDINATOR
   \<and> state (localNode ex_escalated) = WD_COORDINATOR
   \<and> pkt_data (ex_packet WD_IAM_COORDINATOR_MESSAGE ''escalated'') = Some ''escalated''
   \<and> 0 < pkt_len (ex_packet WD_IAM_COORDINATOR_MESSAGE ''escalated'')
   \<and> ex_parse_beacon ''escalated'' = Some (ex_beacon True)
   \<and> ex_parse_beacon ''plain'' = Some (ex_beacon False)
   \<and> ex_parse_beacon ''junk'' = None
   \<and> beacon_state (ex_beacon True) = WD_COORDINATOR
   \<and> now ex_env - seconds_since_current_state (ex_beacon True) \<noteq> 0
   \<and> spec_remote_is_worthier False 1 0 50 True 1 0 60
   \<and> \<not> spec_remote_is_worthier True 1 0 50 False 1 0 60
   \<and> state (localNode (watchdog_state_machine_coordinator ex_parse_beacon ex_env ex_config
        (PacketRcv 0 (ex_packet WD_IAM_COORDINATOR_MESSAGE ''escalated'')) (ex_cluster 0)))
      = WD_JOINING
   \<and> out (watchdog_state_machine_coordinator ex_parse_beacon ex_env ex_config
        (PacketRcv 0 (ex_packet WD_IAM_COORDINATOR_MESSAGE ''escalated'')) (ex_cluster 0))
      = [SendMessage None WD_CLUSTER_SERVICE_MESSAGE 7 (ServiceCode CLUSTER_IAM_NOT_TRUE_MASTER),
         TryConnectingWithAllUnreachableNodes,
         IssueClusterCommand None WD_REQ_INFO_MESSAGE 2 4, SetTimeout 5,
         SendMessage None WD_INFO_MESSAGE 3 NodeInfoJson]
   \<and> state (localNode (watchdog_state_machine_coordinator ex_parse_beacon ex_env ex_config
        (PacketRcv 0 (ex_packet WD_IAM_COORDINATOR_MESSAGE ''plain'')) ex_escalated))
      = WD_COORDINATOR
   \<and> out (watchdog_state_machine_coordinator ex_parse_beacon ex_env ex_config
        (PacketRcv 0 (ex_packet WD_IAM_COORDINATOR_MESSAGE ''plain'')) ex_escalated)
      = [SendMessage (Some (RemoteNode 0)) WD_CLUSTER_SERVICE_MESSAGE 7
           (ServiceCode CLUSTER_IAM_TRUE_MASTER)]
   \<and> state (localNode (watchdog_state_machine_coordinator ex_parse_beacon ex_env ex_config
        (PacketRcv 0 (ex_packet WD_IAM_COORDINATOR_MESSAGE ''junk'')) ex_escalated))
      = WD_JOINING
   \<and> take 1 (out (watchdog_state_machine_coordinator ex_parse_beacon ex_env ex_config
        (PacketRcv 0 (ex_packet WD_IAM_COORDINATOR_MESSAGE ''junk'')) ex_escalated))
      = [SendMessage (Some (RemoteNode 0)) WD_CLUSTER_SERVICE_MESSAGE 7
           (ServiceCode CLUSTER_NEEDS_ELECTION)]"
proof -
  have a: "state (localNode (ex_cluster 0)) = WD_COORDINATOR" by (simp add: ex_defs)
  have b: "state (localNode ex_escalated) = WD_COORDINATOR" by (simp add: ex_defs ex2_defs)
  have p: "\<And>d. pkt_type (ex_packet WD_IAM_COORDINATOR_MESSAGE d) = WD_IAM_COORDINATOR_MESSAGE"
    by (simp add: ex_packet_def)
  note A = C3_split_brain_resolution [where g = "ex_cluster 0"
        and pkt = "ex_packet WD_IAM_COORDINATOR_MESSAGE ''escalated''"
        and parse = ex_parse_beacon and env = ex_env and cfg = ex_config and w = 0
        and d = "''escalated''" and b = "ex_beacon True", OF a p refl]
  note B = C3_split_brain_resolution [where g = "ex_escalated"
        and pkt = "ex_packet WD_IAM_COORDINATOR_MESSAGE ''plain''"
        and parse = ex_parse_beacon and env = ex_env and cfg = ex_config and w = 0
        and d = "''plain''" and b = "ex_beacon False", OF b p refl]
  note C = C3_split_brain_resolution [where g = "ex_escalated"
        and pkt = "ex_packet WD_IAM_COORDINATOR_MESSAGE ''junk''"
        and parse = ex_parse_beacon and env = ex_env and cfg = ex_config and w = 0
        and d = "''junk''" and b = "ex_beacon False", OF b p refl]
  show ?thesis
    using A B C
    by (simp add: ex_defs ex2_defs split_defs send_defs state_defs Let_def eval_nat_numeral)
qed

subsection \<open>The expiry pass\<close>

lemma quarantined_primary_in_iff:
  "quarantined_primary_in shm nl \<longleftrightarrow>
     (\<exists>n \<in> set nl. n \<noteq> - 1 \<and> primary_node_id shm = - 1 \<and>
        quarantine (BACKEND_INFO shm n) \<and> role (BACKEND_INFO shm n) = ROLE_PRIMARY)"
  by (induction nl) auto

lemma requested_by_local_and_quarantined_iff:
  "requested_by_local_and_quarantined shm f rs \<longleftrightarrow>
     LocalNode \<in> set rs \<and> quarantined_primary_in shm (nodeList f)"
  by (induction rs) auto

lemma mark_expired_failovers_eq:
  "mark_expired_failovers env shm fs need =
     (filter (\<lambda>f. \<not> failover_is_expired env f) fs,
      need \<or> (\<exists>f \<in> set fs. failover_is_expired env f \<and> reqKind f = NODE_DOWN_REQUEST \<and>
                 requested_by_local_and_quarantined shm f (requestingNodes f)))"
proof (induction fs arbitrary: need)
  case Nil
  show ?case by simp
next
  case (Cons f fs)
  show ?case
  proof (cases "failover_is_expired env f")
    case True
    then show ?thesis by (auto simp: Cons.IH Let_def)
  next
    case False
    then show ?thesis by (simp add: Cons.IH)
  qed
qed

lemma broadcast_fresh_service_message:
  "send_cluster_service_message None None m g
     = emit (SendMessage None WD_CLUSTER_SERVICE_MESSAGE (nextCommandID g + 1) (ServiceCode m))
         (g\<lparr>nextCommandID := nextCommandID g + 1\<rparr>)"
  by (simp add: send_cluster_service_message_def reply_with_message_def send_message_def
                get_next_commandID_def)

text \<open>
  C7 (amended). On the coordinator the expiry pass removes every proposal that is 15 seconds old
  or older and no other. If one of the expired proposals is a \<open>NodeDown\<close> proposal for which
  the local node has voted and which names a node (other than \<open>-1\<close>) that the middleware has
  quarantined with the role of primary, and the middleware has no primary node on record
  (\<open>primary_node_id = -1\<close>), the coordinator sets its priority to \<open>-1\<close>, broadcasts
  \<open>IamResigningFromMaster\<close> and becomes joining, which drops the remaining proposals as well.
  Otherwise nothing but the list of proposals changes.
\<close>

theorem C7_expired_failovers:
  assumes "state (localNode g) = WD_COORDINATOR"
      and "g' = service_expired_failovers env cfg shm g"
  shows "(\<forall>f \<in> set (wdCurrentFailovers g').
            WD_TIME_DIFF_SEC (now env) (startTime f) < FAILOVER_COMMAND_FINISH_TIMEOUT)
       \<and> set (wdCurrentFailovers g') \<subseteq> set (wdCurrentFailovers g)
       \<and> (if \<exists>f \<in> set (wdCurrentFailovers g).
                 WD_TIME_DIFF_SEC (now env) (startTime f) \<ge> FAILOVER_COMMAND_FINISH_TIMEOUT
               \<and> reqKind f = NODE_DOWN_REQUEST
               \<and> LocalNode \<in> set (requestingNodes f)
               \<and> (\<exists>n \<in> set (nodeList f). n \<noteq> - 1
                     \<and> quarantine (BACKEND_INFO shm n)
                     \<and> role (BACKEND_INFO shm n) = ROLE_PRIMARY)
               \<and> primary_node_id shm = - 1
           then wd_priority (localNode g') = - 1
              \<and> state (localNode g') = WD_JOINING
              \<and> prefix (out g @ [SendMessage None WD_CLUSTER_SERVICE_MESSAGE (nextCommandID g + 1)
                                   (ServiceCode CLUSTER_IAM_RESIGNING_FROM_MASTER)]) (out g')
              \<and> wdCurrentFailovers g' = []
           else g' = g\<lparr>wdCurrentFailovers :=
                         filter (\<lambda>f. WD_TIME_DIFF_SEC (now env) (startTime f)
                                        < FAILOVER_COMMAND_FINISH_TIMEOUT)
                           (wdCurrentFailovers g)\<rparr>)"
proof -
  let ?kept = "filter (\<lambda>f. \<not> failover_is_expired env f) (wdCurrentFailovers g)"
  let ?resign = "\<exists>f \<in> set (wdCurrentFailovers g).
                 WD_TIME_DIFF_SEC (now env) (startTime f) \<ge> FAILOVER_COMMAND_FINISH_TIMEOUT
               \<and> reqKind f = NODE_DOWN_REQUEST
               \<and> LocalNode \<in> set (requestingNodes f)
               \<and> (\<exists>n \<in> set (nodeList f). n \<noteq> - 1
                     \<and> quarantine (BACKEND_INFO shm n)
                     \<and> role (BACKEND_INFO shm n) = ROLE_PRIMARY)
               \<and> primary_node_id shm = - 1"
  have m: "mark_expired_failovers env shm (wdCurrentFailovers g) False = (?kept, ?resign)"
    unfolding mark_expired_failovers_eq requested_by_local_and_quarantined_iff
      quarantined_primary_in_iff failover_is_expired_def
    by auto
  have k: "?kept = filter (\<lambda>f. WD_TIME_DIFF_SEC (now env) (startTime f)
                                        < FAILOVER_COMMAND_FINISH_TIMEOUT) (wdCurrentFailovers g)"
    by (simp add: failover_is_expired_def not_le)
  show ?thesis
  proof (cases ?resign)
    case True
    let ?g2 = "(g\<lparr>wdCurrentFailovers := ?kept\<rparr>)
                 \<lparr>localNode := (localNode g)\<lparr>wd_priority := - 1\<rparr>\<rparr>"
    let ?msg = "SendMessage None WD_CLUSTER_SERVICE_MESSAGE (nextCommandID g + 1)
                  (ServiceCode CLUSTER_IAM_RESIGNING_FROM_MASTER)"
    let ?g3 = "emit ?msg (?g2\<lparr>nextCommandID := nextCommandID g + 1\<rparr>)"
    have g': "g' = set_state env cfg WD_JOINING ?g3"
      using assms True m
      by (simp add: service_expired_failovers_def Let_def broadcast_fresh_service_message)
    have s3: "state (localNode ?g3) = WD_COORDINATOR" using assms(1) by simp
    have o3: "out ?g3 = out g @ [?msg]" by simp
    have p3: "wd_priority (localNode ?g3) = - 1" by simp
    note l = leave_coordinator_for_joining [OF s3, of env cfg]
    have "prefix (out ?g3) (out g')" unfolding g' by (rule prefix_set_state)
    then have pre: "prefix (out g @ [?msg]) (out g')" unfolding o3 .
    have "wd_priority (localNode g') = - 1" unfolding g' l(2) p3 ..
    moreover have "state (localNode g') = WD_JOINING" unfolding g' by (rule l(1))
    moreover have "wdCurrentFailovers g' = []" unfolding g' by (rule l(5))
    ultimately show ?thesis using True pre by simp
  next
    case False
    have g': "g' = g\<lparr>wdCurrentFailovers := ?kept\<rparr>"
      using assms False m by (simp add: service_expired_failovers_def Let_def)
    show ?thesis
      using False unfolding g' k by auto
  qed
qed

lemmas expiry_defs = service_expired_failovers_def failover_is_expired_def WD_TIME_DIFF_SEC_def
  ex_shared_def ex_env_later_def

theorem C7_expired_failovers_witness:
  "state (localNode (ex_pending 2)) = WD_COORDINATOR
   \<and> wdCurrentFailovers (ex_pending 2) = [ex_proposal]
   \<and> WD_TIME_DIFF_SEC (now ex_env_later) (startTime ex_proposal) \<ge> FAILOVER_COMMAND_FINISH_TIMEOUT
   \<and> reqKind ex_proposal = NODE_DOWN_REQUEST
   \<and> LocalNode \<in> set (requestingNodes ex_proposal)
   \<and> 0 \<in> set (nodeList ex_proposal)
   \<and> quarantine (BACKEND_INFO (ex_shared (- 1)) 0)
   \<and> role (BACKEND_INFO (ex_shared (- 1)) 0) = ROLE_PRIMARY
   \<and> primary_node_id (ex_shared (- 1)) = - 1
   \<and> wd_priority (localNode (service_expired_failovers ex_env_later ex_config (ex_shared (- 1))
                                (ex_pending 2))) = - 1
   \<and> state (localNode (service_expired_failovers ex_env_later ex_config (ex_shared (- 1))
                          (ex_pending 2))) = WD_JOINING
   \<and> out (service_expired_failovers ex_env_later ex_config (ex_shared (- 1)) (ex_pending 2))
      = [SendMessage None WD_CLUSTER_SERVICE_MESSAGE 3 (ServiceCode CLUSTER_IAM_RESIGNING_FROM_MASTER),
         TryConnectingWithAllUnreachableNodes,
         IssueClusterCommand None WD_REQ_INFO_MESSAGE 4 4, SetTimeout 5,
         SendMessage None WD_INFO_MESSAGE 5 NodeInfoJson]
   \<and> wdCurrentFailovers (service_expired_failovers ex_env_later ex_config (ex_shared (- 1))
                            (ex_pending 2)) = []
   \<and> service_expired_failovers ex_env ex_config (ex_shared (- 1)) (ex_pending 2) = ex_pending 2"
proof -
  have a: "state (localNode (ex_pending 2)) = WD_COORDINATOR" by (simp add: ex_defs)
  note A = C7_expired_failovers [where g = "ex_pending 2" and env = ex_env_later
      and cfg = ex_config and shm = "ex_shared (- 1)", OF a refl]
  note B = C7_expired_failovers [where g = "ex_pending 2" and env = ex_env
      and cfg = ex_config and shm = "ex_shared (- 1)", OF a refl]
  show ?thesis
    using A B
    by (simp add: ex_defs ex2_defs expiry_defs send_defs state_defs Let_def eval_nat_numeral)
qed

text \<open>
  C7, as stated, fails on the code: a \<open>NodeDown\<close> proposal for backend 0, voted for by the local
  node and 20 seconds old, expires while backend 0 is quarantined with the role of primary; the
  middleware has a primary node on record (node 1), and the coordinator neither lowers its
  priority nor sends anything nor leaves the state of coordinator.
\<close>

theorem C7_quarantined_primary_without_resignation:
  "state (localNode (ex_pending 2)) = WD_COORDINATOR
   \<and> wdCurrentFailovers (ex_pending 2) = [ex_proposal]
   \<and> now ex_env_later - startTime ex_proposal = 20
   \<and> reqKind ex_proposal = NODE_DOWN_REQUEST
   \<and> requestingNodes ex_proposal = [LocalNode]
   \<and> nodeList ex_proposal = [0]
   \<and> quarantine (BACKEND_INFO (ex_shared 1) 0)
   \<and> role (BACKEND_INFO (ex_shared 1) 0) = ROLE_PRIMARY
   \<and> service_expired_failovers ex_env_later ex_config (ex_shared 1) (ex_pending 2)
      = (ex_pending 2)\<lparr>wdCurrentFailovers := []\<rparr>
   \<and> wd_priority (localNode (service_expired_failovers ex_env_later ex_config (ex_shared 1)
                                (ex_pending 2))) = 1
   \<and> state (localNode (service_expired_failovers ex_env_later ex_config (ex_shared 1)
                          (ex_pending 2))) = WD_COORDINATOR
   \<and> out (service_expired_failovers ex_env_later ex_config (ex_shared 1) (ex_pending 2)) = []"
  by (simp add: ex_defs ex2_defs expiry_defs send_defs state_defs Let_def)


subsection \<open>Escalation\<close>

lemma start_escalated_node_already: "escalated (localNode g) \<Longrightarrow> start_escalated_node env g = g"
  by (simp add: start_escalated_node_def)

lemma resign_from_escalated_node_already:
  "\<not> escalated (localNode g) \<Longrightarrow> resign_from_escalated_node env g = g"
  by (simp add: resign_from_escalated_node_def)

lemma fold_start_escalated_node:
  "escalated (localNode g) \<Longrightarrow> fold start_escalated_node envs g = g"
  by (induction envs) (simp_all add: start_escalated_node_already)

lemma count_forks_start_escalated_node:
  assumes "\<not> escalated (localNode g)"
  shows "count_list (out (start_escalated_node env g)) ForkEscalationProcess
           = count_list (out g) ForkEscalationProcess + 1"
proof -
  obtain k where k: "out (wait_for_de_escalation_exit MAX_SECS_ESC_PROC_EXIT_WAIT (child_exits env) g)
                   = out g @ replicate k (Sleep 1)"
    using wait_for_de_escalation_exit_out by blast
  have c: "count_list (replicate k (Sleep 1)) ForkEscalationProcess = 0"
    by (induction k) simp_all
  show ?thesis
    using assms k c by (simp add: start_escalated_node_def Let_def)
qed

text \<open>
  C9. \<open>start_escalated_node\<close> on an escalated node and \<open>resign_from_escalated_node\<close> on a node
  that is not escalated return at once: the cluster, its trace of forks and \<open>holding_vip\<close>
  included, is unchanged. Hence once a call of \<open>start_escalated_node\<close> has escalated the node,
  any number of further calls fork nothing: the episode has exactly one fork of the escalation
  helper.
\<close>

theorem C9_escalation_entry_points:
  "(escalated (localNode g) \<longrightarrow> start_escalated_node env g = g)
   \<and> (\<not> escalated (localNode g) \<longrightarrow> resign_from_escalated_node env g = g)
   \<and> (\<not> escalated (localNode g) \<and> escalated (localNode (start_escalated_node env g))
        \<longrightarrow> fold start_escalated_node envs (start_escalated_node env g)
              = start_escalated_node env g
          \<and> count_list (out (fold start_escalated_node envs (start_escalated_node env g)))
              ForkEscalationProcess
              = count_list (out g) ForkEscalationProcess + 1)"
  using start_escalated_node_already [of g env] resign_from_escalated_node_already [of g env]
    fold_start_escalated_node [of "start_escalated_node env g" envs]
    count_forks_start_escalated_node [of g env]
  by auto

theorem C9_escalation_entry_points_witness:
  "escalated (localNode ex_escalated)
   \<and> start_escalated_node ex_env ex_escalated = ex_escalated
   \<and> \<not> escalated (localNode (ex_cluster 0))
   \<and> resign_from_escalated_node ex_env (ex_cluster 0) = ex_cluster 0
   \<and> escalated (localNode (start_escalated_node ex_env (ex_cluster 0)))
   \<and> out (start_escalated_node ex_env (ex_cluster 0))
      = [ForkEscalationProcess, SetWatchdogNodeEscalated]
   \<and> fold start_escalated_node [ex_env, ex_env] (start_escalated_node ex_env (ex_cluster 0))
      = start_escalated_node ex_env (ex_cluster 0)
   \<and> count_list (out (fold start_escalated_node [ex_env, ex_env]
                         (start_escalated_node ex_env (ex_cluster 0)))) ForkEscalationProcess = 1"
  using C9_escalation_entry_points [of ex_escalated ex_env "[]"]
    C9_escalation_entry_points [of "ex_cluster 0" ex_env "[ex_env, ex_env]"]
  by (simp add: ex_defs ex2_defs send_defs state_defs Let_def eval_nat_numeral)


subsection \<open>Replies to a command\<close>

lemma get_wd_command_from_reply_Some:
  "get_wd_command_from_reply cs pkt = Some i \<Longrightarrow>
     i < length cs \<and> command_id (commandPacket (cs ! i)) = command_id pkt"
proof (induction cs arbitrary: i)
  case Nil
  then show ?case by simp
next
  case (Cons c cs)
  show ?case
  proof (cases "command_id (commandPacket c) = command_id pkt")
    case True
    with Cons.prems show ?thesis by simp
  next
    case False
    with Cons.prems obtain j where "get_wd_command_from_reply cs pkt = Some j" "i = Suc j"
      by auto
    with Cons.IH [of j] show ?thesis by simp
  qed
qed

lemma find_node_result_Some:
  "find_node_result w rs = (cleared, Some ri) \<Longrightarrow>
     ri < length cleared \<and> length cleared = length rs \<and> res_wdNode (rs ! ri) = w"
proof (induction rs arbitrary: cleared ri)
  case Nil
  then show ?case by simp
next
  case (Cons r rs)
  show ?case
  proof (cases "res_wdNode r = w")
    case True
    with Cons.prems show ?thesis
      by (auto simp: clear_command_node_result_def Let_def)
  next
    case False
    obtain rs' f where e: "find_node_result w rs = (rs', f)"
      by (cases "find_node_result w rs") auto
    with False Cons.prems obtain j where j: "f = Some j" "ri = Suc j" "cleared = clear_command_node_result r # rs'"
      by (auto simp: clear_command_node_result_def Let_def)
    with Cons.IH [of rs' j] e show ?thesis by simp
  qed
qed

lemma find_node_result_slot:
  "(\<exists>cleared ri. find_node_result w rs = (cleared, Some ri)) \<longleftrightarrow> (\<exists>r \<in> set rs. res_wdNode r = w)"
proof (induction rs)
  case Nil
  show ?case by simp
next
  case (Cons r rs)
  show ?case
  proof (cases "res_wdNode r = w")
    case True
    then show ?thesis by (simp add: clear_command_node_result_def Let_def)
  next
    case False
    obtain rs' f where e: "find_node_result w rs = (rs', f)"
      by (cases "find_node_result w rs") auto
    show ?thesis
      using False e Cons.IH by (auto simp: clear_command_node_result_def Let_def)
  qed
qed

lemma reply_is_counted:
  assumes "get_wd_command_from_reply cs pkt = Some ci"
      and "commandStatus (cs ! ci) = COMMAND_IN_PROGRESS"
      and "pkt_type pkt = WD_ACCEPT_MESSAGE \<or> pkt_type pkt = WD_REJECT_MESSAGE
           \<or> pkt_type pkt = WD_ERROR_MESSAGE \<or> pkt_type pkt = WD_INFO_MESSAGE"
      and "find_node_result w (nodeResults (cs ! ci)) = (cleared, Some ri)"
      and "watchdog_internal_command_packet_processor w pkt cs = (handled, cs', calls)"
  shows "handled
       \<and> (if commandReplyFromCount (cs ! ci) + 1 \<ge> commandSendToCount (cs ! ci)
              \<or> is_reject_or_error pkt
           then cs' = take ci cs @ drop (Suc ci) cs
              \<and> (\<exists>c. last calls = CallStateMachine (CommandFinished (Some w) (Some pkt) c)
                     \<and> commandReplyFromCount c = commandReplyFromCount (cs ! ci) + 1
                     \<and> commandStatus c =
                         (if is_reject_or_error pkt then COMMAND_FINISHED_NODE_REJECTED
                          else COMMAND_FINISHED_ALL_REPLIED))
           else length cs' = length cs
              \<and> commandReplyFromCount (cs' ! ci) = commandReplyFromCount (cs ! ci) + 1
              \<and> commandStatus (cs' ! ci) = COMMAND_IN_PROGRESS
              \<and> cmdState (nodeResults (cs' ! ci) ! ri) = COMMAND_STATE_REPLIED)"
proof -
  have ci: "ci < length cs" using assms(1) by (auto dest: get_wd_command_from_reply_Some)
  have ri: "ri < length cleared" using assms(4) by (auto dest: find_node_result_Some)
  let ?calls = "if pkt_type pkt = WD_INFO_MESSAGE then [CallStandardPacketProcessor w pkt] else []"
  let ?c1 = "(cs ! ci)\<lparr>nodeResults := cleared[ri := (cleared ! ri)
                                        \<lparr>result_type := pkt_type pkt,
                                         cmdState := COMMAND_STATE_REPLIED\<rparr>],
                       commandReplyFromCount := commandReplyFromCount (cs ! ci) + 1\<rparr>"
  have t: "\<not> (pkt_type pkt \<noteq> WD_ERROR_MESSAGE \<and> pkt_type pkt \<noteq> WD_ACCEPT_MESSAGE \<and>
                   pkt_type pkt \<noteq> WD_REJECT_MESSAGE \<and> pkt_type pkt \<noteq> WD_INFO_MESSAGE)"
    using assms(3) by blast
  show ?thesis
  proof (cases "commandReplyFromCount (cs ! ci) + 1 \<ge> commandSendToCount (cs ! ci)")
    case True
    let ?c2 = "?c1\<lparr>commandStatus := (if is_reject_or_error pkt then COMMAND_FINISHED_NODE_REJECTED
                                      else COMMAND_FINISHED_ALL_REPLIED)\<rparr>"
    have "watchdog_internal_command_packet_processor w pkt cs
            = (True, take ci cs @ drop (Suc ci) cs,
               ?calls @ [CallStateMachine (CommandFinished (Some w) (Some pkt) ?c2)])"
      using assms(1,2,4) t True
      by (simp add: watchdog_internal_command_packet_processor_def Let_def)
    with assms(5) have "handled" "cs' = take ci cs @ drop (Suc ci) cs"
      "last calls = CallStateMachine (CommandFinished (Some w) (Some pkt) ?c2)"
      by auto
    moreover have "commandReplyFromCount ?c2 = commandReplyFromCount (cs ! ci) + 1
                 \<and> commandStatus ?c2 = (if is_reject_or_error pkt then COMMAND_FINISHED_NODE_REJECTED
                          else COMMAND_FINISHED_ALL_REPLIED)"
      by simp
    ultimately show ?thesis using True by auto
  next
    case False
    show ?thesis
    proof (cases "is_reject_or_error pkt")
      case True
      let ?c2 = "?c1\<lparr>commandStatus := COMMAND_FINISHED_NODE_REJECTED\<rparr>"
      have "watchdog_internal_command_packet_processor w pkt cs
            = (True, take ci cs @ drop (Suc ci) cs,
               ?calls @ [CallStateMachine (CommandFinished (Some w) (Some pkt) ?c2)])"
        using assms(1,2,4) t True False
        by (simp add: watchdog_internal_command_packet_processor_def Let_def)
      with assms(5) have "handled" "cs' = take ci cs @ drop (Suc ci) cs"
        "last calls = CallStateMachine (CommandFinished (Some w) (Some pkt) ?c2)"
        by auto
      moreover have "commandReplyFromCount ?c2 = commandReplyFromCount (cs ! ci) + 1
                 \<and> commandStatus ?c2 = COMMAND_FINISHED_NODE_REJECTED"
        by simp
      ultimately show ?thesis using True by auto
    next
      case nr: False
      have "watchdog_internal_command_packet_processor w pkt cs = (True, cs[ci := ?c1], ?calls)"
        using assms(1,2,4) t nr False
        by (simp add: watchdog_internal_command_packet_processor_def Let_def)
      with assms(5) have "handled" "cs' = cs[ci := ?c1]" by auto
      then show ?thesis using nr False ci ri assms(2) by simp
    qed
  qed
qed

text \<open>
  C6 (amended). Replies are matched to a command in progress by their command id alone. Every
  \<open>Accept\<close>, \<open>Reject\<close>, \<open>Error\<close> or \<open>Info\<close> reply of a peer that has a result slot is processed in
  full, whatever the state of the slot, so also when the peer has replied before: the slot is
  marked as replied, the count of replies grows by one, and the command finishes when the
  count reaches the number of nodes it was sent to (or at once on \<open>Reject\<close> and \<open>Error\<close>).
\<close>

theorem C6_every_reply_is_counted:
  assumes "watchdog_internal_command_packet_processor w pkt cs = (handled, cs', calls)"
  shows "(get_wd_command_from_reply cs pkt = Some ci
          \<and> commandStatus (cs ! ci) = COMMAND_IN_PROGRESS
          \<and> (pkt_type pkt = WD_ACCEPT_MESSAGE \<or> pkt_type pkt = WD_REJECT_MESSAGE
               \<or> pkt_type pkt = WD_ERROR_MESSAGE \<or> pkt_type pkt = WD_INFO_MESSAGE)
          \<and> find_node_result w (nodeResults (cs ! ci)) = (cleared, Some ri)
            \<longrightarrow> handled
              \<and> (if commandReplyFromCount (cs ! ci) + 1 \<ge> commandSendToCount (cs ! ci)
                     \<or> is_reject_or_error pkt
                  then cs' = take ci cs @ drop (Suc ci) cs
                     \<and> (\<exists>c. last calls = CallStateMachine (CommandFinished (Some w) (Some pkt) c)
                            \<and> commandReplyFromCount c = commandReplyFromCount (cs ! ci) + 1
                            \<and> commandStatus c =
                                (if is_reject_or_error pkt then COMMAND_FINISHED_NODE_REJECTED
                                 else COMMAND_FINISHED_ALL_REPLIED))
                  else length cs' = length cs
                     \<and> commandReplyFromCount (cs' ! ci) = commandReplyFromCount (cs ! ci) + 1
                     \<and> commandStatus (cs' ! ci) = COMMAND_IN_PROGRESS
                     \<and> cmdState (nodeResults (cs' ! ci) ! ri) = COMMAND_STATE_REPLIED))
       \<and> (get_wd_command_from_reply cs pkt = None
            \<or> (get_wd_command_from_reply cs pkt = Some ci
                \<and> commandStatus (cs ! ci) \<noteq> COMMAND_IN_PROGRESS)
            \<longrightarrow> \<not> handled \<and> cs' = cs \<and> calls = [])"
proof -
  have ignored: "get_wd_command_from_reply cs pkt = None
            \<or> (get_wd_command_from_reply cs pkt = Some ci
                \<and> commandStatus (cs ! ci) \<noteq> COMMAND_IN_PROGRESS)
            \<longrightarrow> \<not> handled \<and> cs' = cs \<and> calls = []"
    using assms by (auto simp: watchdog_internal_command_packet_processor_def Let_def)
  from reply_is_counted [of cs pkt ci w cleared ri handled cs' calls] assms ignored
  show ?thesis by blast
qed

lemmas tracker_defs = watchdog_internal_command_packet_processor_def clear_command_node_result_def
  is_reject_or_error_def ex_slot_def ex_tracked_def ex_after_reply_def ex_packet_def

text \<open>
  C6, as stated, fails on the code: a command was sent to three nodes and node 0 has replied;
  the same reply of node 0 once more raises the count of replies from 1 to 2, and a third copy
  finishes the command as answered by all, although nodes 1 and 2 never replied.
\<close>

theorem C6_second_reply_is_counted_again:
  "commandReplyFromCount (hd (ex_after_reply 1)) = 1
   \<and> map cmdState (nodeResults (hd (ex_after_reply 1)))
      = [COMMAND_STATE_REPLIED, COMMAND_STATE_SENT, COMMAND_STATE_SENT]
   \<and> commandStatus (hd (ex_after_reply 1)) = COMMAND_IN_PROGRESS
   \<and> watchdog_internal_command_packet_processor 0 (ex_packet WD_ACCEPT_MESSAGE []) (ex_after_reply 1)
      = (True, ex_after_reply 2, [])
   \<and> commandReplyFromCount (hd (ex_after_reply 2)) = 2
   \<and> watchdog_internal_command_packet_processor 0 (ex_packet WD_ACCEPT_MESSAGE []) (ex_after_reply 2)
      = (True, [],
         [CallStateMachine (CommandFinished (Some 0) (Some (ex_packet WD_ACCEPT_MESSAGE []))
            ((hd (ex_after_reply 2))\<lparr>commandReplyFromCount := 3,
                                     commandStatus := COMMAND_FINISHED_ALL_REPLIED\<rparr>))])"
  by (simp add: tracker_defs Let_def eval_nat_numeral)

theorem C6_every_reply_is_counted_witness:
  "get_wd_command_from_reply (ex_after_reply 1) (ex_packet WD_ACCEPT_MESSAGE []) = Some 0
   \<and> commandStatus (ex_after_reply 1 ! 0) = COMMAND_IN_PROGRESS
   \<and> cmdState (nodeResults (ex_after_reply 1 ! 0) ! 0) = COMMAND_STATE_REPLIED
   \<and> snd (find_node_result 0 (nodeResults (ex_after_reply 1 ! 0))) = Some 0
   \<and> watchdog_internal_command_packet_processor 0 (ex_packet WD_ACCEPT_MESSAGE []) (ex_after_reply 1)
      = (True, ex_after_reply 2, [])
   \<and> \<not> commandReplyFromCount (ex_after_reply 1 ! 0) + 1 \<ge> commandSendToCount (ex_after_reply 1 ! 0)
   \<and> \<not> is_reject_or_error (ex_packet WD_ACCEPT_MESSAGE [])
   \<and> commandReplyFromCount (ex_after_reply 1 ! 0) = 1
   \<and> commandReplyFromCount (ex_after_reply 2 ! 0) = 2
   \<and> commandStatus (ex_after_reply 2 ! 0) = COMMAND_IN_PROGRESS"
proof -
  have h1: "get_wd_command_from_reply (ex_after_reply 1) (ex_packet WD_ACCEPT_MESSAGE []) = Some 0"
    by (simp add: tracker_defs Let_def)
  have h2: "commandStatus (ex_after_reply 1 ! 0) = COMMAND_IN_PROGRESS"
    by (simp add: tracker_defs Let_def)
  have h3: "pkt_type (ex_packet WD_ACCEPT_MESSAGE []) = WD_ACCEPT_MESSAGE
            \<or> pkt_type (ex_packet WD_ACCEPT_MESSAGE []) = WD_REJECT_MESSAGE
            \<or> pkt_type (ex_packet WD_ACCEPT_MESSAGE []) = WD_ERROR_MESSAGE
            \<or> pkt_type (ex_packet WD_ACCEPT_MESSAGE []) = WD_INFO_MESSAGE"
    by (simp add: ex_packet_def)
  have h4: "find_node_result 0 (nodeResults (ex_after_reply 1 ! 0))
              = (fst (find_node_result 0 (nodeResults (ex_after_reply 1 ! 0))), Some 0)"
    by (simp add: tracker_defs Let_def)
  have h5: "watchdog_internal_command_packet_processor 0 (ex_packet WD_ACCEPT_MESSAGE [])
              (ex_after_reply 1) = (True, ex_after_reply 2, [])"
    by (simp add: tracker_defs Let_def eval_nat_numeral)
  show ?thesis
    using C6_every_reply_is_counted [OF h5, where ci = 0
        and cleared = "fst (find_node_result 0 (nodeResults (ex_after_reply 1 ! 0)))" and ri = 0]
      h1 h2 h3 h4 h5
    by (simp add: tracker_defs Let_def eval_nat_numeral)
qed


subsection \<open>IPC authentication\<close>

lemma failover_command_needs_shared_key:
  "check_IPC_client_authentication cfg g shared_key root True =
     Some (shared_key \<noteq> None \<and>
           map_option word_of_int (json_get_int_value_for_key root WD_IPC_SHARED_KEY) = shared_key)"
  by (cases shared_key) (auto simp: check_IPC_client_authentication_def Let_def)

text \<open>
  C8 (amended). A \<open>FailoverCommand\<close> is for internal clients only: whatever \<open>auth_key\<close> is
  configured and whatever \<open>IPCAuthKey\<close> the frame carries, it is rejected unless its payload is a
  JSON object that carries the shared key. A rejected command is answered before any handler
  runs: the result frame is \<open>Bad\<close>, the cluster is unchanged (the handlers do not occur in the
  result), and the error string is \<open>authentication failed: invalid KEY\<close> when the payload is
  a JSON object without the valid shared key, and \<open>authentication failed: invalid data\<close> when
  the payload is empty or is not a JSON object.
\<close>

theorem C8_unauthenticated_failover_command:
  assumes "sourcePacket_type c = WD_IPC_FAILOVER_COMMAND"
  shows "(sourcePacket_data c = Some d \<and> 0 < sourcePacket_len c
          \<and> json_parse d = Some (json_object ms)
          \<and> (shared_key = None
              \<or> map_option word_of_int (json_get_int_value_for_key (json_object ms) WD_IPC_SHARED_KEY)
                   \<noteq> shared_key)
            \<longrightarrow> read_ipc_socket_and_process json_parse cfg shared_key handlers c g
                  = Some (False, emit (WriteIPCResult (sourceIPCSocket c) WD_IPC_CMD_RESULT_BAD
                                         (Some ''authentication failed: invalid KEY'')) g))
       \<and> (sourcePacket_data c = None \<or> sourcePacket_len c \<le> 0
          \<or> (sourcePacket_data c = Some d
              \<and> (case json_parse d of Some (json_object m) \<Rightarrow> False | _ \<Rightarrow> True))
            \<longrightarrow> read_ipc_socket_and_process json_parse cfg shared_key handlers c g
                  = Some (False, emit (WriteIPCResult (sourceIPCSocket c) WD_IPC_CMD_RESULT_BAD
                                         (Some ''authentication failed: invalid data'')) g))"
proof -
  have key: "sourcePacket_data c = Some d \<and> 0 < sourcePacket_len c
          \<and> json_parse d = Some (json_object ms)
          \<and> (shared_key = None
              \<or> map_option word_of_int (json_get_int_value_for_key (json_object ms) WD_IPC_SHARED_KEY)
                   \<noteq> shared_key)
            \<longrightarrow> read_ipc_socket_and_process json_parse cfg shared_key handlers c g
                  = Some (False, emit (WriteIPCResult (sourceIPCSocket c) WD_IPC_CMD_RESULT_BAD
                                         (Some ''authentication failed: invalid KEY'')) g)"
  proof (intro impI, elim conjE)
    assume a: "sourcePacket_data c = Some d" "0 < sourcePacket_len c"
              "json_parse d = Some (json_object ms)"
       and k: "shared_key = None
              \<or> map_option word_of_int (json_get_int_value_for_key (json_object ms) WD_IPC_SHARED_KEY)
                   \<noteq> shared_key"
    have "check_IPC_client_authentication cfg g shared_key (json_object ms) True = Some False"
      unfolding failover_command_needs_shared_key using k by auto
    then have "check_and_report_IPC_authentication json_parse cfg g shared_key c
                 = Some (False, c\<lparr>errorMessage := Some ''authentication failed: invalid KEY''\<rparr>)"
      using assms a by (simp add: check_and_report_IPC_authentication_def)
    then show "read_ipc_socket_and_process json_parse cfg shared_key handlers c g
                  = Some (False, emit (WriteIPCResult (sourceIPCSocket c) WD_IPC_CMD_RESULT_BAD
                                         (Some ''authentication failed: invalid KEY'')) g)"
      by (simp add: read_ipc_socket_and_process_def process_IPC_command_def)
  qed
  have data: "sourcePacket_data c = None \<or> sourcePacket_len c \<le> 0
          \<or> (sourcePacket_data c = Some d
              \<and> (case json_parse d of Some (json_object m) \<Rightarrow> False | _ \<Rightarrow> True))
            \<longrightarrow> read_ipc_socket_and_process json_parse cfg shared_key handlers c g
                  = Some (False, emit (WriteIPCResult (sourceIPCSocket c) WD_IPC_CMD_RESULT_BAD
                                         (Some ''authentication failed: invalid data'')) g)"
  proof
    assume u: "sourcePacket_data c = None \<or> sourcePacket_len c \<le> 0
          \<or> (sourcePacket_data c = Some d
              \<and> (case json_parse d of Some (json_object m) \<Rightarrow> False | _ \<Rightarrow> True))"
    have "check_and_report_IPC_authentication json_parse cfg g shared_key c
                 = Some (False, c\<lparr>errorMessage := Some ''authentication failed: invalid data''\<rparr>)"
      using assms u
      by (auto simp: check_and_report_IPC_authentication_def
               split: option.splits json_value.splits)
    then show "read_ipc_socket_and_process json_parse cfg shared_key handlers c g
                  = Some (False, emit (WriteIPCResult (sourceIPCSocket c) WD_IPC_CMD_RESULT_BAD
                                         (Some ''authentication failed: invalid data'')) g)"
      by (simp add: read_ipc_socket_and_process_def process_IPC_command_def)
  qed
  from key data show ?thesis by blast
qed

lemmas ipc_defs = read_ipc_socket_and_process_def process_IPC_command_def
  check_and_report_IPC_authentication_def check_IPC_client_authentication_def
  json_get_int_value_for_key_def json_get_string_value_for_key_def WD_IPC_SHARED_KEY_def
  WD_IPC_AUTH_KEY_def ex_json_parse_def ex_failover_command_def ex_handlers_def

theorem C8_unauthenticated_failover_command_witness:
  "sourcePacket_type (ex_failover_command ''object'') = WD_IPC_FAILOVER_COMMAND
   \<and> ipc_auth_needed (ex_cluster 2) \<and> wd_authkey ex_config = ''secret''
   \<and> sourcePacket_data (ex_failover_command ''object'') = Some ''object''
   \<and> 0 < sourcePacket_len (ex_failover_command ''object'')
   \<and> ex_json_parse ''object'' = Some (json_object [])
   \<and> ex_json_parse ''authkey'' = Some (json_object [(WD_IPC_AUTH_KEY, json_string ''secret'')])
   \<and> map_option word_of_int (json_get_int_value_for_key (json_object []) WD_IPC_SHARED_KEY)
        \<noteq> Some (99 :: 32 word)
   \<and> read_ipc_socket_and_process ex_json_parse ex_config (Some 99) ex_handlers
        (ex_failover_command ''object'') (ex_cluster 2)
      = Some (False, (ex_cluster 2)\<lparr>out := [WriteIPCResult 9 WD_IPC_CMD_RESULT_BAD
                                               (Some ''authentication failed: invalid KEY'')]\<rparr>)
   \<and> read_ipc_socket_and_process ex_json_parse ex_config (Some 99) ex_handlers
        (ex_failover_command ''authkey'') (ex_cluster 2)
      = Some (False, (ex_cluster 2)\<lparr>out := [WriteIPCResult 9 WD_IPC_CMD_RESULT_BAD
                                               (Some ''authentication failed: invalid KEY'')]\<rparr>)
   \<and> sourcePacket_data (ex_failover_command ''array'') = Some ''array''
   \<and> ex_json_parse ''array'' = Some (json_array [])
   \<and> read_ipc_socket_and_process ex_json_parse ex_config (Some 99) ex_handlers
        (ex_failover_command ''array'') (ex_cluster 2)
      = Some (False, (ex_cluster 2)\<lparr>out := [WriteIPCResult 9 WD_IPC_CMD_RESULT_BAD
                                               (Some ''authentication failed: invalid data'')]\<rparr>)"
proof -
  have t: "\<And>d. sourcePacket_type (ex_failover_command d) = WD_IPC_FAILOVER_COMMAND"
    by (simp add: ex_failover_command_def)
  note A = C8_unauthenticated_failover_command [where c = "ex_failover_command ''object''"
      and d = "''object''" and json_parse = ex_json_parse and ms = "[]"
      and shared_key = "Some 99" and cfg = ex_config and handlers = ex_handlers
      and g = "ex_cluster 2", OF t]
  note B = C8_unauthenticated_failover_command [where c = "ex_failover_command ''authkey''"
      and d = "''authkey''" and json_parse = ex_json_parse
      and ms = "[(WD_IPC_AUTH_KEY, json_string ''secret'')]"
      and shared_key = "Some 99" and cfg = ex_config and handlers = ex_handlers
      and g = "ex_cluster 2", OF t]
  note C = C8_unauthenticated_failover_command [where c = "ex_failover_command ''array''"
      and d = "''array''" and json_parse = ex_json_parse and ms = "[]"
      and shared_key = "Some 99" and cfg = ex_config and handlers = ex_handlers
      and g = "ex_cluster 2", OF t]
  show ?thesis
    using A B C
    by (simp add: ipc_defs ex_defs emit_def)
qed

text \<open>
  C8, as stated, fails on the code: a \<open>FailoverCommand\<close> with an empty payload, hence without
  any key, arrives while \<open>auth_key\<close> is configured; it is rejected with a \<open>Bad\<close> result, but the
  error string is \<open>authentication failed: invalid data\<close>.
\<close>

theorem C8_empty_payload_is_invalid_data:
  "sourcePacket_type (ex_failover_command []) = WD_IPC_FAILOVER_COMMAND
   \<and> ipc_auth_needed (ex_cluster 2) \<and> wd_authkey ex_config = ''secret''
   \<and> sourcePacket_data (ex_failover_command []) = None
   \<and> sourcePacket_len (ex_failover_command []) = 0
   \<and> read_ipc_socket_and_process ex_json_parse ex_config (Some 99) ex_handlers
        (ex_failover_command []) (ex_cluster 2)
      = Some (False, (ex_cluster 2)\<lparr>out := [WriteIPCResult 9 WD_IPC_CMD_RESULT_BAD
                                               (Some ''authentication failed: invalid data'')]\<rparr>)
   \<and> ''authentication failed: invalid data'' \<noteq> ''authentication failed: invalid KEY''"
  by (simp add: ipc_defs ex_defs emit_def)

end
